theory Spec2Isabelle
  imports Complex_Main "HOL-Library.AList"
begin

section \<open>Vectors\<close>

text \<open>
  The program computes with numpy arrays of three float64 components. A coordinate or
  axis is modelled as a triple of reals: arithmetic is exact, so rounding, overflow and
  NaN are outside the model. \<open>np.linalg.norm\<close> is the Euclidean norm, \<open>np.dot\<close> and
  \<open>np.cross\<close> are the usual products, \<open>np.mean(_, axis=0)\<close> is the componentwise mean.
\<close>

type_synonym vec = "real \<times> real \<times> real"

fun vadd :: "vec \<Rightarrow> vec \<Rightarrow> vec" where
  "vadd (a1, a2, a3) (b1, b2, b3) = (a1 + b1, a2 + b2, a3 + b3)"

fun vsub :: "vec \<Rightarrow> vec \<Rightarrow> vec" where
  "vsub (a1, a2, a3) (b1, b2, b3) = (a1 - b1, a2 - b2, a3 - b3)"

fun vscale :: "vec \<Rightarrow> real \<Rightarrow> vec" where
  "vscale (a1, a2, a3) s = (a1 * s, a2 * s, a3 * s)"

fun vdiv :: "vec \<Rightarrow> real \<Rightarrow> vec" where
  "vdiv (a1, a2, a3) s = (a1 / s, a2 / s, a3 / s)"

fun dot :: "vec \<Rightarrow> vec \<Rightarrow> real" where
  "dot (a1, a2, a3) (b1, b2, b3) = a1 * b1 + a2 * b2 + a3 * b3"

fun cross :: "vec \<Rightarrow> vec \<Rightarrow> vec" where
  "cross (a1, a2, a3) (b1, b2, b3) =
     (a2 * b3 - a3 * b2, a3 * b1 - a1 * b3, a1 * b2 - a2 * b1)"

fun linalg_norm :: "vec \<Rightarrow> real" where
  "linalg_norm (a1, a2, a3) = sqrt (a1 * a1 + a2 * a2 + a3 * a3)"

definition mean :: "vec list \<Rightarrow> vec" where
  "mean ps = vdiv (foldr vadd ps (0, 0, 0)) (real (length ps))"

section \<open>normalize_vector\<close>

text \<open>
  \<open>warnings.warn\<close> does not change the value returned: the warning is the second
  component of the result. The function has no raise and no failing operation (the
  division is reached only when the norm is at least \<open>1e-9\<close>).
\<close>

datatype warning = NearZeroVector vec

definition normalize_vector :: "vec \<Rightarrow> vec \<times> warning list" where
  "normalize_vector v =
     (let norm = linalg_norm v in
      if norm < 1 / 10 ^ 9 then ((0, 0, 1), [NearZeroVector v])
      else (vdiv v norm, []))"

text \<open>The array a caller of \<open>normalize_vector\<close> receives.\<close>

definition normalized :: "vec \<Rightarrow> vec" where
  "normalized v = fst (normalize_vector v)"

section \<open>The host: PyMOL and numpy\<close>

text \<open>
  An atom of the model returned by \<open>cmd.get_model\<close>, with the five attributes the
  program reads (\<open>resi\<close> is a string in PyMOL).
\<close>

record atom =
  chain :: string
  resi :: string
  resn :: string
  name :: string
  coord :: vec

datatype linalg_error = LinAlgError

datatype exn = Exn string

type_synonym res_key = "string \<times> string \<times> string"

text \<open>A frame is the tuple \<open>(resn, center, x_axis, y_axis, z_axis)\<close> of the source.\<close>

type_synonym frame = "string \<times> vec \<times> vec \<times> vec \<times> vec"

text \<open>
  What the program calls and does not define is a parameter:
  \<^item> \<open>get_model\<close>: the atoms PyMOL selects for a selection string;
  \<^item> \<open>matrix_rank\<close>: \<open>np.linalg.matrix_rank\<close> of a matrix given by its rows;
  \<^item> \<open>svd_vh_last\<close>: the last row \<open>vh[-1]\<close> of \<open>np.linalg.svd\<close> of that matrix;
    both may raise \<open>LinAlgError\<close>;
  \<^item> \<open>raises\<close>: the exception, if any, that the library calls of a shape generator
    raise for a residue's frame. The arithmetic of the generators has no failing
    operation of its own, so an exception in the \<open>try\<close> of \<open>render_snfg\<close> comes from
    the host.
\<close>

record host =
  get_model :: "string \<Rightarrow> atom list"
  matrix_rank :: "vec list \<Rightarrow> linalg_error + nat"
  svd_vh_last :: "vec list \<Rightarrow> linalg_error + vec"
  raises :: "frame \<Rightarrow> exn option"

section \<open>get_residue_orientation\<close>

definition default_x :: vec where "default_x = (1, 0, 0)"
definition default_y :: vec where "default_y = (0, 1, 0)"
definition default_z :: vec where "default_z = (0, 0, 1)"

text \<open>
  \<open>required_atoms\<close> and \<open>plane_atoms\<close> are Python sets. They are iterated to collect
  coordinates; the order of that iteration is fixed here as the order of the literal.
  The mean of the coordinates does not depend on it.
\<close>

definition required_atoms :: "string list" where
  "required_atoms = [''C1'', ''C2'', ''C3'', ''C4'', ''C5'', ''O5'']"

definition plane_atoms :: "string list" where
  "plane_atoms = [''C1'', ''C2'', ''C3'', ''C4'', ''C5'']"

text \<open>
  The first loop: \<open>residue_atoms\<close> is a dict of dicts, kept in insertion order; a later
  atom of the same name in the same residue overwrites the coordinate.
\<close>

fun collect_atoms ::
  "atom list \<Rightarrow> (res_key \<times> (string \<times> vec) list) list \<Rightarrow> (res_key \<times> (string \<times> vec) list) list"
where
  "collect_atoms [] residue_atoms = residue_atoms"
| "collect_atoms (a # rest) residue_atoms =
     collect_atoms rest
       (if name a \<in> set required_atoms then
          (let res_key = (chain a, resi a, resn a);
               atoms = (case map_of residue_atoms res_key of None \<Rightarrow> [] | Some d \<Rightarrow> d)
           in AList.update res_key (AList.update (name a) (coord a) atoms) residue_atoms)
        else residue_atoms)"

text \<open>\<open>[atoms[name] for name in names if name in atoms]\<close>\<close>

definition coords_of :: "string list \<Rightarrow> (string \<times> vec) list \<Rightarrow> vec list" where
  "coords_of names atoms = List.map_filter (map_of atoms) names"

text \<open>\<open>np.isnan(v).any()\<close>: a real number is never NaN.\<close>

definition isnan_any :: "vec \<Rightarrow> bool" where
  "isnan_any v = False"

text \<open>
  Step 3, the plane normal. The matrix \<open>centered_coords\<close> has one row per plane atom and
  3 columns. Every \<open>LinAlgError\<close> of the \<open>try\<close> ends in the default normal.
\<close>

definition plane_normal_of :: "host \<Rightarrow> (string \<times> vec) list \<Rightarrow> vec" where
  "plane_normal_of h atoms =
     (let plane_coords_list = coords_of plane_atoms atoms in
      if length plane_coords_list < 3 then default_z
      else
        (let plane_center = mean plane_coords_list;
             centered_coords = map (\<lambda>p. vsub p plane_center) plane_coords_list;
             shape = (length centered_coords, 3 :: nat)
         in if snd shape < 2 then default_z
            else
              (case matrix_rank h centered_coords of
                 Inl e \<Rightarrow> default_z
               | Inr rank \<Rightarrow>
                   if int rank < int (min (fst shape) (snd shape)) - 1 then default_z
                   else
                     (case svd_vh_last h centered_coords of
                        Inl e \<Rightarrow> default_z
                      | Inr vh_last \<Rightarrow> normalized vh_last))))"

text \<open>Step 4, the X and Y axes from the Z axis and the plane normal.\<close>

definition xy_axes :: "vec \<Rightarrow> vec \<Rightarrow> vec \<times> vec" where
  "xy_axes plane_normal z_axis =
     (if \<bar>dot plane_normal z_axis\<bar> > 0.995 then
        (let temp_vec = (if \<bar>dot (1, 0, 0) z_axis\<bar> > 0.99 then (0, 1, 0) else (1, 0, 0));
             y_axis = normalized (cross z_axis temp_vec);
             x_axis = normalized (cross y_axis z_axis)
         in (x_axis, y_axis))
      else
        (let x_axis = normalized (cross plane_normal z_axis);
             y_axis = normalized (cross z_axis x_axis)
         in (x_axis, y_axis)))"

text \<open>
  The body of the second loop, for one residue: the frame stored in
  \<open>orientations[res_key]\<close>. The \<open>print\<close> calls of this function do not change what it
  returns and are left out.
\<close>

definition residue_orientation :: "host \<Rightarrow> res_key \<Rightarrow> (string \<times> vec) list \<Rightarrow> frame" where
  "residue_orientation h res_key atoms =
     (let resn = snd (snd res_key);
          center_coords = coords_of required_atoms atoms
      in
      if length center_coords < 3 then
        (let available_coords = map snd atoms;
             center = (if available_coords \<noteq> [] then mean available_coords else (0, 0, 0))
         in (resn, center, default_x, default_y, default_z))
      else
        (let center = mean center_coords in
         case map_of atoms ''C4'' of
           None \<Rightarrow> (resn, center, default_x, default_y, default_z)
         | Some coord_C4 \<Rightarrow>
             (let vec_c4 = vsub coord_C4 center;
                  z_axis = (if linalg_norm vec_c4 < 1 / 10 ^ 6 then default_z
                            else normalized vec_c4);
                  plane_normal = plane_normal_of h atoms;
                  (x_axis, y_axis) = xy_axes plane_normal z_axis
              in
              if isnan_any x_axis \<or> isnan_any y_axis \<or> isnan_any z_axis
              then (resn, center, default_x, default_y, default_z)
              else (resn, center, x_axis, y_axis, z_axis))))"

text \<open>
  The dict \<open>orientations\<close>: one entry per key of \<open>residue_atoms\<close>, in its order. The
  function returns the values of that dict.
\<close>

definition orientations :: "host \<Rightarrow> atom list \<Rightarrow> (res_key \<times> frame) list" where
  "orientations h model =
     map (\<lambda>(res_key, atoms). (res_key, residue_orientation h res_key atoms))
       (collect_atoms model [])"

definition get_residue_orientation :: "host \<Rightarrow> string \<Rightarrow> frame list" where
  "get_residue_orientation h selection = map snd (orientations h (get_model h selection))"

section \<open>Transformation\<close>

text \<open>A 3x3 matrix is the triple of its rows.\<close>

type_synonym mat = "vec \<times> vec \<times> vec"

fun transpose_mat :: "mat \<Rightarrow> mat" where
  "transpose_mat ((a11, a12, a13), (a21, a22, a23), (a31, a32, a33)) =
     ((a11, a21, a31), (a12, a22, a32), (a13, a23, a33))"

fun mat_dot :: "mat \<Rightarrow> vec \<Rightarrow> vec" where
  "mat_dot (r1, r2, r3) v = (dot r1 v, dot r2 v, dot r3 v)"

definition get_transformation_matrix :: "vec \<Rightarrow> vec \<Rightarrow> vec \<Rightarrow> mat" where
  "get_transformation_matrix x_axis y_axis z_axis =
     transpose_mat (normalized x_axis, normalized y_axis, normalized z_axis)"

definition transform_vertices :: "vec list \<Rightarrow> vec \<Rightarrow> mat \<Rightarrow> vec list" where
  "transform_vertices vertices center rotation_matrix =
     map (\<lambda>v. vadd (mat_dot rotation_matrix v) center) vertices"

definition transform_normals :: "vec list \<Rightarrow> mat \<Rightarrow> vec list" where
  "transform_normals normals rotation_matrix =
     map (\<lambda>n. normalized (mat_dot rotation_matrix n)) normals"

section \<open>CGO primitives\<close>

text \<open>
  A CGO list is a flat list of opcodes, drawing modes and numbers (the constants are
  those of \<open>pymol.cgo\<close>). \<open>nums v\<close> is the splice \<open>*v\<close> of a 3-vector into the list.
\<close>

datatype cgo =
    COLOR | BEGIN | END | VERTEX | NORMAL | SPHERE | CONE | CYLINDER
  | TRIANGLES | TRIANGLE_STRIP | TRIANGLE_FAN
  | Num real

fun nums :: "vec \<Rightarrow> cgo list" where
  "nums (a1, a2, a3) = [Num a1, Num a2, Num a3]"

definition radians :: "real \<Rightarrow> real" where
  "radians d = d * pi / 180"

definition cgo_star ::
  "real \<Rightarrow> real \<Rightarrow> real \<Rightarrow> real \<Rightarrow> vec \<Rightarrow> vec \<Rightarrow> vec \<Rightarrow> vec \<Rightarrow> cgo list" where
  "cgo_star x y z r color x_axis y_axis z_axis =
     (let center = (x, y, z);
          rotation_matrix = get_transformation_matrix x_axis y_axis z_axis;
          r_inner = 0.45 * r;
          angles = map (\<lambda>i. radians (real i * 72)) [0..<5];
          outer_points_local = map (\<lambda>angle. (r * cos angle, 0, r * sin angle)) angles;
          inner_points_local =
            map (\<lambda>angle. let inner_angle = angle + radians 36
                         in (r_inner * cos inner_angle, 0, r_inner * sin inner_angle)) angles;
          volume_points_local = [(0, 0.6 * r, 0), (0, - 0.6 * r, 0)];
          outer_points = transform_vertices outer_points_local center rotation_matrix;
          inner_points = transform_vertices inner_points_local center rotation_matrix;
          volume_points = transform_vertices volume_points_local center rotation_matrix;
          normal_front = transform_normals [(0, 1, 0)] rotation_matrix ! 0;
          normal_back = transform_normals [(0, - 1, 0)] rotation_matrix ! 0
      in
        [COLOR] @ nums color
        @ [BEGIN, TRIANGLE_FAN, NORMAL] @ nums normal_front @ [VERTEX] @ nums (volume_points ! 0)
        @ concat (map (\<lambda>i. [VERTEX] @ nums (outer_points ! i) @ [VERTEX] @ nums (inner_points ! i))
                    [0..<5])
        @ [VERTEX] @ nums (outer_points ! 0)
        @ [END]
        @ [BEGIN, TRIANGLE_FAN, NORMAL] @ nums normal_back @ [VERTEX] @ nums (volume_points ! 1)
        @ concat (map (\<lambda>i. let idx = i
                           in [VERTEX] @ nums (outer_points ! idx) @ [VERTEX] @ nums (inner_points ! idx))
                    [0..<5])
        @ [VERTEX] @ nums (outer_points ! 0)
        @ [END])"

definition cgo_sphere :: "real \<Rightarrow> real \<Rightarrow> real \<Rightarrow> real \<Rightarrow> vec \<Rightarrow> cgo list" where
  "cgo_sphere x y z size' color =
     [COLOR] @ nums color @ [SPHERE, Num x, Num y, Num z, Num (size' * 1.3)]"

definition cgo_cone ::
  "real \<Rightarrow> real \<Rightarrow> real \<Rightarrow> real \<Rightarrow> vec \<Rightarrow> vec \<Rightarrow> vec \<Rightarrow> vec \<Rightarrow> cgo list" where
  "cgo_cone x y z r color x_axis y_axis z_axis =
     (let center = (x, y, z);
          rotation_matrix = get_transformation_matrix x_axis y_axis z_axis;
          vertices_local = [(0, 0, r), (0, 0, - r)];
          vertices = transform_vertices vertices_local center rotation_matrix
      in
        [COLOR] @ nums color
        @ [CONE] @ nums (vertices ! 0) @ nums (vertices ! 1) @ [Num 0, Num r]
        @ nums color @ nums color @ [Num 1, Num 1])"

definition diamond_vertices_local :: "real \<Rightarrow> vec list" where
  "diamond_vertices_local r =
     [(0, 0, r), (0, 0, - r), (0, r, 0), (0, - r, 0), (r, 0, 0), (- r, 0, 0)]"

definition diamond_normals_local :: "vec list" where
  "diamond_normals_local =
     [normalized (1, 1, 1), normalized (- 1, 1, 1),
      normalized (- 1, - 1, 1), normalized (1, - 1, 1),
      normalized (1, 1, - 1), normalized (- 1, 1, - 1),
      normalized (- 1, - 1, - 1), normalized (1, - 1, - 1)]"

text \<open>One triangle of the octahedron: a normal and three vertices.\<close>

definition diamond_face :: "vec list \<Rightarrow> vec list \<Rightarrow> nat \<Rightarrow> nat \<Rightarrow> nat \<Rightarrow> nat \<Rightarrow> cgo list" where
  "diamond_face normals vertices n a b c =
     [NORMAL] @ nums (normals ! n) @ [VERTEX] @ nums (vertices ! a)
     @ [VERTEX] @ nums (vertices ! b) @ [VERTEX] @ nums (vertices ! c)"

definition cgo_diamond ::
  "real \<Rightarrow> real \<Rightarrow> real \<Rightarrow> real \<Rightarrow> vec \<Rightarrow> vec \<Rightarrow> vec \<Rightarrow> vec \<Rightarrow> cgo list" where
  "cgo_diamond x y z r color x_axis y_axis z_axis =
     (let center = (x, y, z);
          rotation_matrix = get_transformation_matrix x_axis y_axis z_axis;
          vertices = transform_vertices (diamond_vertices_local r) center rotation_matrix;
          normals = transform_normals diamond_normals_local rotation_matrix
      in
        [COLOR] @ nums color
        @ [BEGIN, TRIANGLES]
        @ diamond_face normals vertices 0 0 2 4
        @ diamond_face normals vertices 1 0 5 2
        @ diamond_face normals vertices 2 0 3 5
        @ diamond_face normals vertices 3 0 4 3
        @ diamond_face normals vertices 4 1 4 2
        @ diamond_face normals vertices 5 1 2 5
        @ diamond_face normals vertices 6 1 5 3
        @ diamond_face normals vertices 7 1 3 4
        @ [END])"

definition cgo_half_diamond ::
  "real \<Rightarrow> real \<Rightarrow> real \<Rightarrow> real \<Rightarrow> vec \<Rightarrow> vec \<Rightarrow> vec \<Rightarrow> vec \<Rightarrow> vec \<Rightarrow> cgo list" where
  "cgo_half_diamond x y z r color color_2 x_axis y_axis z_axis =
     (let center = (x, y, z);
          rotation_matrix = get_transformation_matrix x_axis y_axis z_axis;
          vertices = transform_vertices (diamond_vertices_local r) center rotation_matrix;
          normals = transform_normals diamond_normals_local rotation_matrix
      in
        [BEGIN, TRIANGLES]
        @ [COLOR] @ nums color_2 @ diamond_face normals vertices 0 0 2 4
        @ [COLOR] @ nums color @ diamond_face normals vertices 1 0 5 2
        @ [COLOR] @ nums color @ diamond_face normals vertices 2 0 3 5
        @ [COLOR] @ nums color_2 @ diamond_face normals vertices 3 0 4 3
        @ [COLOR] @ nums color_2 @ diamond_face normals vertices 4 1 4 2
        @ [COLOR] @ nums color @ diamond_face normals vertices 5 1 2 5
        @ [COLOR] @ nums color @ diamond_face normals vertices 6 1 5 3
        @ [COLOR] @ nums color_2 @ diamond_face normals vertices 7 1 3 4
        @ [END])"

definition cube_vertices_local :: "real \<Rightarrow> vec list" where
  "cube_vertices_local r_half =
     [(r_half, r_half, - r_half), (r_half, - r_half, - r_half),
      (r_half, r_half, r_half), (r_half, - r_half, r_half),
      (- r_half, r_half, r_half), (- r_half, - r_half, r_half),
      (- r_half, r_half, - r_half), (- r_half, - r_half, - r_half),
      (- r_half, r_half, r_half), (r_half, r_half, r_half),
      (- r_half, r_half, - r_half), (r_half, r_half, - r_half),
      (- r_half, - r_half, - r_half), (r_half, - r_half, - r_half),
      (- r_half, - r_half, r_half), (r_half, - r_half, r_half),
      (- r_half, r_half, r_half), (- r_half, - r_half, r_half),
      (r_half, r_half, r_half), (r_half, - r_half, r_half),
      (- r_half, - r_half, - r_half), (- r_half, r_half, - r_half),
      (r_half, - r_half, - r_half), (r_half, r_half, - r_half)]"

definition strip_orders :: "nat list list" where
  "strip_orders =
     [[0, 2, 1, 3], [0, 2, 1, 3], [0, 2, 1, 3], [0, 2, 1, 3], [0, 2, 1, 3], [0, 2, 1, 3]]"

definition cube_normals_local :: "vec list" where
  "cube_normals_local =
     [(1, 0, 0), (- 1, 0, 0), (0, 1, 0), (0, - 1, 0), (0, 0, 1), (0, 0, - 1)]"

text \<open>The body of the loop over the 6 faces of the cube.\<close>

definition cube_face :: "vec list \<Rightarrow> vec list \<Rightarrow> nat \<Rightarrow> cgo list" where
  "cube_face normals vertices i =
     [BEGIN, TRIANGLE_STRIP]
     @ [NORMAL] @ nums (normals ! i)
     @ (let face_vertex_start_index = i * 4
        in concat (map (\<lambda>strip_index.
                     let vertex_index = face_vertex_start_index + strip_index
                     in [VERTEX] @ nums (vertices ! vertex_index))
                   (strip_orders ! i)))
     @ [END]"

definition cgo_cube ::
  "real \<Rightarrow> real \<Rightarrow> real \<Rightarrow> real \<Rightarrow> vec \<Rightarrow> vec \<Rightarrow> vec \<Rightarrow> vec \<Rightarrow> cgo list" where
  "cgo_cube x y z r color x_axis y_axis z_axis =
     (let center = (x, y, z);
          rotation_matrix = get_transformation_matrix x_axis y_axis z_axis;
          r_half = r;
          vertices = transform_vertices (cube_vertices_local r_half) center rotation_matrix;
          normals = transform_normals cube_normals_local rotation_matrix
      in [COLOR] @ nums color @ concat (map (cube_face normals vertices) [0..<6]))"

section \<open>render_snfg\<close>

definition SNFG_WHITE :: vec where "SNFG_WHITE = (255 / 255, 255 / 255, 255 / 255)"
definition SNFG_BLUE :: vec where "SNFG_BLUE = (0 / 255, 144 / 255, 188 / 255)"
definition SNFG_GREEN :: vec where "SNFG_GREEN = (0 / 255, 166 / 255, 81 / 255)"
definition SNFG_YELLOW :: vec where "SNFG_YELLOW = (255 / 255, 212 / 255, 0 / 255)"
definition SNFG_LIGHT_BLUE :: vec where "SNFG_LIGHT_BLUE = (143 / 255, 204 / 255, 233 / 255)"
definition SNFG_PINK :: vec where "SNFG_PINK = (246 / 255, 158 / 255, 161 / 255)"
definition SNFG_PURPLE :: vec where "SNFG_PURPLE = (165 / 255, 67 / 255, 153 / 255)"
definition SNFG_BROWN :: vec where "SNFG_BROWN = (161 / 255, 122 / 255, 77 / 255)"
definition SNFG_ORANGE :: vec where "SNFG_ORANGE = (244 / 255, 121 / 255, 32 / 255)"
definition SNFG_RED :: vec where "SNFG_RED = (237 / 255, 28 / 255, 36 / 255)"

definition AXIS_X_COLOR :: vec where "AXIS_X_COLOR = (1, 0, 0)"
definition AXIS_Y_COLOR :: vec where "AXIS_Y_COLOR = (0, 1, 0)"
definition AXIS_Z_COLOR :: vec where "AXIS_Z_COLOR = (0, 0, 1)"

text \<open>The dict \<open>snfg_shapes\<close>, in the order of its literal (its keys are distinct).\<close>

definition snfg_shapes :: "(string \<times> vec \<times> string) list" where
  "snfg_shapes =
     [(''GLC'', SNFG_BLUE, ''sphere''), (''MAL'', SNFG_BLUE, ''sphere''),
      (''BGC'', SNFG_BLUE, ''sphere''), (''MAN'', SNFG_GREEN, ''sphere''),
      (''BMA'', SNFG_GREEN, ''sphere''), (''GAL'', SNFG_YELLOW, ''sphere''),
      (''GLA'', SNFG_YELLOW, ''sphere''), (''FUC'', SNFG_RED, ''cone''),
      (''FUL'', SNFG_RED, ''cone''), (''XYL'', SNFG_ORANGE, ''star''),
      (''XYP'', SNFG_ORANGE, ''star''), (''XYS'', SNFG_ORANGE, ''star''),
      (''ARA'', SNFG_GREEN, ''star''), (''AHR'', SNFG_GREEN, ''star''),
      (''RIB'', SNFG_PINK, ''star''), (''NAG'', SNFG_BLUE, ''cube''),
      (''GLCNAC'', SNFG_BLUE, ''cube''), (''4YS'', SNFG_BLUE, ''cube''),
      (''SGN'', SNFG_BLUE, ''cube''), (''BGLN'', SNFG_BLUE, ''cube''),
      (''NDG'', SNFG_BLUE, ''cube''), (''NGA'', SNFG_YELLOW, ''cube''),
      (''GALNAC'', SNFG_YELLOW, ''cube''), (''A2G'', SNFG_YELLOW, ''cube''),
      (''MANNA'', SNFG_GREEN, ''cube''), (''NEU5AC'', SNFG_PURPLE, ''diamond''),
      (''SIA'', SNFG_PURPLE, ''diamond''), (''NEU5GC'', SNFG_LIGHT_BLUE, ''diamond''),
      (''NGC'', SNFG_LIGHT_BLUE, ''diamond''), (''KDN'', SNFG_GREEN, ''diamond''),
      (''ADA'', SNFG_YELLOW, ''half_diamond''), (''GLCA'', SNFG_BLUE, ''half_diamond''),
      (''GCU'', SNFG_BLUE, ''half_diamond''), (''BDP'', SNFG_BLUE, ''half_diamond''),
      (''IDOA'', SNFG_BROWN, ''half_diamond_reverse''),
      (''IDS'', SNFG_BROWN, ''half_diamond_reverse''),
      (''IDR'', SNFG_BROWN, ''half_diamond_reverse''),
      (''API'', SNFG_PINK, ''diamond'')]"

fun join :: "string \<Rightarrow> string list \<Rightarrow> string" where
  "join sep [] = []"
| "join sep [s] = s"
| "join sep (s # t # ss) = s @ sep @ join sep (t # ss)"

text \<open>
  \<open>str.isalnum\<close> on one character, for the ASCII range: a character outside that
  range counts here as not alphanumeric, while Python keeps the letters and digits
  among them. Only the name of the object loaded depends on it.
\<close>

definition isalnum :: "char \<Rightarrow> bool" where
  "isalnum c =
     (let n = (of_char c :: nat)
      in (48 \<le> n \<and> n \<le> 57) \<or> (65 \<le> n \<and> n \<le> 90) \<or> (97 \<le> n \<and> n \<le> 122))"

definition safe_name :: "string \<Rightarrow> string" where
  "safe_name selection =
     (let safe_selection_name = map (\<lambda>c. if isalnum c then c else CHR ''_'') selection
      in if safe_selection_name = [] then ''selection'' else safe_selection_name)"

text \<open>The lines \<open>render_snfg\<close> prints, by the values they show.\<close>

datatype log =
    Applying string
  | No_matching_residues
  | Processing nat
  | Skipping_not_in_shapes string vec
  | Shape_not_implemented string string
  | No_cgo_generated string vec string
  | Skipping_debug_axes string vec
  | Error_generating string vec exn
  | No_valid_cgo
  | Debug_axes_loaded string
  | Processed nat string
  | Debug_axes_none
  | Note_transparency real

text \<open>The calls made to PyMOL, in order.\<close>

datatype cmd = Delete string | Load_cgo "cgo list" string

text \<open>
  The shape generator chosen in the \<open>try\<close>, with the line printed before it is called
  (the last branch only).
\<close>

definition shape_cgo ::
  "real \<Rightarrow> string \<Rightarrow> vec \<Rightarrow> string \<Rightarrow> real \<Rightarrow> real \<Rightarrow> real \<Rightarrow> vec \<Rightarrow> vec \<Rightarrow> vec \<Rightarrow> log list \<times> cgo list"
where
  "shape_cgo scale resn' color shape x y z x_axis y_axis z_axis =
     (let shape_scale_factor = 4.0 * scale in
      if shape = ''sphere'' then
        ([], cgo_sphere x y z (1.8 * scale) color)
      else if shape = ''star'' then
        ([], cgo_star x y z shape_scale_factor color x_axis y_axis z_axis)
      else if shape = ''cone'' then
        ([], cgo_cone x y z (shape_scale_factor * 0.75) color x_axis y_axis z_axis)
      else if shape = ''cube'' then
        ([], cgo_cube x y z (shape_scale_factor * 0.55) color x_axis y_axis z_axis)
      else if shape = ''diamond'' then
        ([], cgo_diamond x y z (shape_scale_factor * 0.75) color x_axis y_axis z_axis)
      else if shape = ''half_diamond'' then
        ([], cgo_half_diamond x y z (shape_scale_factor * 0.75) color SNFG_WHITE
               x_axis y_axis z_axis)
      else if shape = ''half_diamond_reverse'' then
        ([], cgo_half_diamond x y z (shape_scale_factor * 0.75) SNFG_WHITE color
               x_axis y_axis z_axis)
      else
        ([Shape_not_implemented shape resn'], cgo_sphere x y z (1.8 * scale) color))"

text \<open>The three cylinders of the debug axes of one residue.\<close>

definition debug_axes_cgo :: "real \<Rightarrow> vec \<Rightarrow> vec \<Rightarrow> vec \<Rightarrow> vec \<Rightarrow> cgo list" where
  "debug_axes_cgo scale center x_axis y_axis z_axis =
     (let shape_scale_factor = 4.0 * scale;
          axis_length = shape_scale_factor * 1.5;
          axis_radius = scale * 0.1;
          end_x = vadd center (vscale x_axis axis_length);
          end_y = vadd center (vscale y_axis axis_length);
          end_z = vadd center (vscale z_axis axis_length)
      in
        [CYLINDER] @ nums center @ nums end_x @ [Num axis_radius]
          @ nums AXIS_X_COLOR @ nums AXIS_X_COLOR
        @ [CYLINDER] @ nums center @ nums end_y @ [Num axis_radius]
          @ nums AXIS_Y_COLOR @ nums AXIS_Y_COLOR
        @ [CYLINDER] @ nums center @ nums end_z @ [Num axis_radius]
          @ nums AXIS_Z_COLOR @ nums AXIS_Z_COLOR)"

text \<open>
  The state of the loop over \<open>orientation_data\<close>: \<open>cgo_objects\<close>,
  \<open>debug_cgo_objects\<close>, \<open>processed_count\<close> and the lines printed so far.
\<close>

type_synonym acc = "cgo list \<times> cgo list \<times> nat \<times> log list"

text \<open>
  One iteration. An exception raised by the shape generator leaves the \<open>try\<close> before
  anything is appended; the handler prints the residue name, the center and the
  exception, and the loop goes on. What follows the generator in the \<open>try\<close> (the
  appends and the sums and products that place the debug axes) is taken not to raise.
\<close>

definition render_residue :: "host \<Rightarrow> real \<Rightarrow> bool \<Rightarrow> frame \<Rightarrow> acc \<Rightarrow> acc" where
  "render_residue h scale debug_axes fr acc =
     (let (resn, center, x_axis, y_axis, z_axis) = fr;
          (cgo_objects, debug_cgo_objects, processed_count, out) = acc
      in
      case map_of snfg_shapes resn of
        None \<Rightarrow>
          (cgo_objects, debug_cgo_objects, processed_count,
           out @ [Skipping_not_in_shapes resn center])
      | Some (color, shape) \<Rightarrow>
          (let (x, y, z) = center;
               (warn, cgo_obj) = shape_cgo scale resn color shape x y z x_axis y_axis z_axis
           in
           case raises h fr of
             Some e \<Rightarrow>
               (cgo_objects, debug_cgo_objects, processed_count,
                out @ warn @ [Error_generating resn center e])
           | None \<Rightarrow>
               (let (cgo_objects1, processed_count1, out1) =
                      (if cgo_obj \<noteq> [] then
                         (cgo_objects @ cgo_obj, processed_count + 1, out @ warn)
                       else
                         (cgo_objects, processed_count,
                          out @ warn @ [No_cgo_generated resn center shape]));
                    (debug_cgo_objects1, out2) =
                      (if debug_axes then
                         (if \<not> (isnan_any x_axis \<or> isnan_any y_axis \<or> isnan_any z_axis) then
                            (debug_cgo_objects @ debug_axes_cgo scale center x_axis y_axis z_axis,
                             out1)
                          else (debug_cgo_objects, out1 @ [Skipping_debug_axes resn center]))
                       else (debug_cgo_objects, out1))
                in (cgo_objects1, debug_cgo_objects1, processed_count1, out2))))"

fun render_loop :: "host \<Rightarrow> real \<Rightarrow> bool \<Rightarrow> frame list \<Rightarrow> acc \<Rightarrow> acc" where
  "render_loop h scale debug_axes [] acc = acc"
| "render_loop h scale debug_axes (fr # rest) acc =
     render_loop h scale debug_axes rest (render_residue h scale debug_axes fr acc)"

definition full_selection_of :: "string \<Rightarrow> string" where
  "full_selection_of selection =
     (let target_resn = join ''+'' (map fst snfg_shapes)
      in ''('' @ selection @ '') and resn '' @ target_resn)"

text \<open>What the loop has accumulated when it ends.\<close>

definition accumulated :: "host \<Rightarrow> string \<Rightarrow> real \<Rightarrow> bool \<Rightarrow> acc" where
  "accumulated h selection scale debug_axes =
     (let full_selection = full_selection_of selection;
          orientation_data = get_residue_orientation h full_selection
      in render_loop h scale debug_axes orientation_data
           ([], [], 0, [Applying full_selection, Processing (length orientation_data)]))"

text \<open>
  \<open>render_snfg\<close> returns nothing; its result here is what it does: the calls to PyMOL
  and the lines printed.
\<close>

definition render_snfg :: "host \<Rightarrow> string \<Rightarrow> real \<Rightarrow> real \<Rightarrow> bool \<Rightarrow> cmd list \<times> log list" where
  "render_snfg h selection transparency scale debug_axes =
     (let safe_selection_name = safe_name selection;
          full_selection = full_selection_of selection;
          orientation_data = get_residue_orientation h full_selection
      in
      if orientation_data = [] then ([], [Applying full_selection, No_matching_residues])
      else
        (let (cgo_objects, debug_cgo_objects, processed_count, out) =
               accumulated h selection scale debug_axes
         in
         if cgo_objects = [] then
           (if debug_axes \<and> debug_cgo_objects \<noteq> [] then
              (let cgo_name = ''snfg_'' @ safe_selection_name;
                   debug_cgo_name = cgo_name @ ''_axes''
               in ([Load_cgo debug_cgo_objects debug_cgo_name],
                   out @ [No_valid_cgo, Debug_axes_loaded debug_cgo_name]))
            else ([], out @ [No_valid_cgo]))
         else
           (let cgo_name = ''snfg_'' @ safe_selection_name;
                cmds = [Delete cgo_name, Load_cgo cgo_objects cgo_name];
                out1 = out @ [Processed processed_count cgo_name]
            in
            if debug_axes \<and> debug_cgo_objects \<noteq> [] then
              (let debug_cgo_name = cgo_name @ ''_axes''
               in (cmds @ [Delete debug_cgo_name, Load_cgo debug_cgo_objects debug_cgo_name],
                   out1 @ [Debug_axes_loaded debug_cgo_name, Note_transparency transparency]))
            else if debug_axes then
              (cmds, out1 @ [Debug_axes_none, Note_transparency transparency])
            else (cmds, out1 @ [Note_transparency transparency]))))"

section \<open>PyMOL's objects\<close>

text \<open>
  The objects PyMOL holds, by name: each is the list of its states, and no states means
  no object. \<open>cmd.delete\<close> removes the object. \<open>cmd.load_cgo\<close> on a name that exists
  either adds a state to the object or replaces it; the flag \<open>appends\<close> chooses, so
  that a property proved for both values holds for either host.
\<close>

type_synonym objects = "string \<Rightarrow> cgo list list"

fun exec_cmd :: "bool \<Rightarrow> cmd \<Rightarrow> objects \<Rightarrow> objects" where
  "exec_cmd appends (Delete n) objs = objs(n := [])"
| "exec_cmd appends (Load_cgo prims n) objs =
     objs(n := (if appends then objs n @ [prims] else [prims]))"

fun exec_cmds :: "bool \<Rightarrow> cmd list \<Rightarrow> objects \<Rightarrow> objects" where
  "exec_cmds appends [] objs = objs"
| "exec_cmds appends (c # cs) objs = exec_cmds appends cs (exec_cmd appends c objs)"

section \<open>Notions used to state the properties\<close>

text \<open>
  The residue of an atom, the atoms of a residue that the first loop keeps, the dict
  \<open>residue_atoms[k]\<close> they build, and the number of required atoms present in a
  residue (the number of distinct names among the atoms kept).
\<close>

definition res_key_of :: "atom \<Rightarrow> res_key" where
  "res_key_of a = (chain a, resi a, resn a)"

definition required_found :: "atom list \<Rightarrow> res_key \<Rightarrow> atom list" where
  "required_found model k = [a \<leftarrow> model. res_key_of a = k \<and> name a \<in> set required_atoms]"

definition dict_of :: "atom list \<Rightarrow> (string \<times> vec) list \<Rightarrow> (string \<times> vec) list" where
  "dict_of found d = fold (\<lambda>a. AList.update (name a) (coord a)) found d"

definition atoms_of :: "atom list \<Rightarrow> res_key \<Rightarrow> (string \<times> vec) list" where
  "atoms_of model k = dict_of (required_found model k) []"

definition n_required :: "atom list \<Rightarrow> res_key \<Rightarrow> nat" where
  "n_required model k = card (name ` set (required_found model k))"

text \<open>Three axes that are pairwise orthogonal, of norm 1 and right-handed, exactly.\<close>

definition orthonormal_rh :: "vec \<Rightarrow> vec \<Rightarrow> vec \<Rightarrow> bool" where
  "orthonormal_rh x y z \<longleftrightarrow>
     dot x y = 0 \<and> dot y z = 0 \<and> dot x z = 0 \<and>
     linalg_norm x = 1 \<and> linalg_norm y = 1 \<and> linalg_norm z = 1 \<and>
     dot (cross x y) z = 1"

text \<open>
  The groups of a CGO list: what stands between each \<open>BEGIN\<close> and the next \<open>END\<close>.
\<close>

fun split_groups :: "cgo list option \<Rightarrow> cgo list \<Rightarrow> cgo list list" where
  "split_groups None [] = []"
| "split_groups (Some g) [] = []"
| "split_groups None (t # ts) =
     (if t = BEGIN then split_groups (Some []) ts else split_groups None ts)"
| "split_groups (Some g) (t # ts) =
     (if t = END then g # split_groups None ts else split_groups (Some (g @ [t])) ts)"

definition face_groups :: "cgo list \<Rightarrow> cgo list list" where
  "face_groups prims = split_groups None prims"

text \<open>
  The star, in words: the \<open>i\<close>-th point of a rim of the given radius in the local XZ
  plane, at \<open>72 i\<close> degrees plus an offset; the rotation of a local point by an angle
  about the local Y axis; and one side of the star, a fan of a normal, an apex, the 5
  outer and 5 inner points in turn, and the first outer point again.
\<close>

definition star_rim :: "real \<Rightarrow> real \<Rightarrow> nat \<Rightarrow> vec" where
  "star_rim radius offset i =
     (radius * cos (radians (real i * 72) + radians offset), 0,
      radius * sin (radians (real i * 72) + radians offset))"

definition rotate_xz :: "real \<Rightarrow> vec \<Rightarrow> vec" where
  "rotate_xz deg p =
     (case p of (a, b, c) \<Rightarrow>
        (a * cos (radians deg) - c * sin (radians deg), b,
         a * sin (radians deg) + c * cos (radians deg)))"

definition star_fan :: "vec \<Rightarrow> vec \<Rightarrow> (nat \<Rightarrow> vec) \<Rightarrow> (nat \<Rightarrow> vec) \<Rightarrow> cgo list" where
  "star_fan normal apex outer inner =
     [TRIANGLE_FAN, NORMAL] @ nums normal @ [VERTEX] @ nums apex
     @ [VERTEX] @ nums (outer 0) @ [VERTEX] @ nums (inner 0)
     @ [VERTEX] @ nums (outer 1) @ [VERTEX] @ nums (inner 1)
     @ [VERTEX] @ nums (outer 2) @ [VERTEX] @ nums (inner 2)
     @ [VERTEX] @ nums (outer 3) @ [VERTEX] @ nums (inner 3)
     @ [VERTEX] @ nums (outer 4) @ [VERTEX] @ nums (inner 4)
     @ [VERTEX] @ nums (outer 0)"

text \<open>
  The point of local coordinates \<open>p\<close> in the frame of the axes \<open>ex\<close>, \<open>ey\<close>,
  \<open>ez\<close> at \<open>center\<close>.
\<close>

definition in_basis :: "vec \<Rightarrow> vec \<Rightarrow> vec \<Rightarrow> vec \<Rightarrow> vec \<Rightarrow> vec" where
  "in_basis ex ey ez center p =
     (case p of (a, b, c) \<Rightarrow> vadd (vadd (vadd (vscale ex a) (vscale ey b)) (vscale ez c)) center)"

text \<open>
  The loop of \<open>render_snfg\<close>, in words: a frame whose residue name is a key of
  \<open>snfg_shapes\<close>; the primitives of its shape and of its debug axes; the parts of the
  loop state; and the name of the object loaded.
\<close>

definition known :: "frame \<Rightarrow> bool" where
  "known fr =
     (case fr of (rn, center, x_axis, y_axis, z_axis) \<Rightarrow>
        (case map_of snfg_shapes rn of None \<Rightarrow> False | Some cs \<Rightarrow> True))"

definition generated :: "real \<Rightarrow> frame \<Rightarrow> cgo list" where
  "generated scale fr =
     (case fr of (rn, (x, y, z), x_axis, y_axis, z_axis) \<Rightarrow>
        (case map_of snfg_shapes rn of
           None \<Rightarrow> []
         | Some (color, shape) \<Rightarrow> snd (shape_cgo scale rn color shape x y z x_axis y_axis z_axis)))"

definition generated_axes :: "real \<Rightarrow> bool \<Rightarrow> frame \<Rightarrow> cgo list" where
  "generated_axes scale debug_axes fr =
     (case fr of (rn, center, x_axis, y_axis, z_axis) \<Rightarrow>
        (case map_of snfg_shapes rn of
           None \<Rightarrow> []
         | Some cs \<Rightarrow>
             if debug_axes then debug_axes_cgo scale center x_axis y_axis z_axis else []))"

definition cgo_objects_of :: "acc \<Rightarrow> cgo list" where
  "cgo_objects_of acc = (case acc of (cgo_objects, debug_cgo_objects, processed_count, out) \<Rightarrow> cgo_objects)"

definition debug_cgo_objects_of :: "acc \<Rightarrow> cgo list" where
  "debug_cgo_objects_of acc =
     (case acc of (cgo_objects, debug_cgo_objects, processed_count, out) \<Rightarrow> debug_cgo_objects)"

definition printed_of :: "acc \<Rightarrow> log list" where
  "printed_of acc = (case acc of (cgo_objects, debug_cgo_objects, processed_count, out) \<Rightarrow> out)"

definition cgo_name_of :: "string \<Rightarrow> string" where
  "cgo_name_of selection = ''snfg_'' @ safe_name selection"

section \<open>Example inputs\<close>

text \<open>
  A host whose selection returns the given atoms, whose \<open>matrix_rank\<close> and \<open>svd\<close>
  return the given rank and last singular vector, and which raises nothing.
\<close>

definition example_host :: "atom list \<Rightarrow> nat \<Rightarrow> vec \<Rightarrow> host" where
  "example_host model rank vh_last =
     \<lparr>get_model = (\<lambda>selection. model), matrix_rank = (\<lambda>m. Inr rank),
      svd_vh_last = (\<lambda>m. Inr vh_last), raises = (\<lambda>fr. None)\<rparr>"

definition ring_atom :: "string \<Rightarrow> string \<Rightarrow> vec \<Rightarrow> atom" where
  "ring_atom rn n xyz = \<lparr>chain = ''A'', resi = ''1'', resn = rn, name = n, coord = xyz\<rparr>"

text \<open>
  A ring lying in the plane \<open>x = 0\<close> with C4 at the mean of its atoms: the rows of
  the centered matrix have first component 0, so its rank is 2 and its last right
  singular vector is \<open>(1,0,0)\<close> or \<open>(-1,0,0)\<close>.
\<close>

definition flat_ring :: "atom list" where
  "flat_ring =
     [ring_atom ''NAG'' ''C1'' (0, 1, 0), ring_atom ''NAG'' ''C2'' (0, - 1, 0),
      ring_atom ''NAG'' ''C3'' (0, 0, 1), ring_atom ''NAG'' ''C4'' (0, 0, 0),
      ring_atom ''NAG'' ''C5'' (0, 0, - 1)]"

definition flat_ring_atoms :: "(string \<times> vec) list" where
  "flat_ring_atoms =
     [(''C1'', (0, 1, 0)), (''C2'', (0, - 1, 0)), (''C3'', (0, 0, 1)), (''C4'', (0, 0, 0)),
      (''C5'', (0, 0, - 1))]"

text \<open>Three atoms in the plane \<open>z = 0\<close>, C4 away from their mean \<open>(0,1,0)\<close>.\<close>

definition triangle :: "atom list" where
  "triangle =
     [ring_atom ''MAN'' ''C1'' (1, 0, 0), ring_atom ''MAN'' ''C2'' (- 1, 0, 0),
      ring_atom ''MAN'' ''C4'' (0, 3, 0)]"

text \<open>A residue without C4, a residue with two required atoms, one with none.\<close>

definition no_c4 :: "atom list" where
  "no_c4 =
     [ring_atom ''MAN'' ''C1'' (3, 0, 0), ring_atom ''MAN'' ''C2'' (0, 3, 0),
      ring_atom ''MAN'' ''C3'' (0, 0, 3)]"

definition two_atoms :: "atom list" where
  "two_atoms = [ring_atom ''MAN'' ''C1'' (1, 2, 3), ring_atom ''MAN'' ''O5'' (3, 4, 5)]"

definition no_ring_atom :: "atom list" where
  "no_ring_atom = [ring_atom ''NAG'' ''C6'' (1, 2, 3)]"

text \<open>
  Two residues of one required atom each, a single such residue, a host in which the
  shape generator raises for the residue at a given center, and objects PyMOL holds
  before a call: a sphere under the name \<open>snfg_all\<close>.
\<close>

definition two_residues :: "atom list" where
  "two_residues =
     [\<lparr>chain = ''A'', resi = ''1'', resn = ''MAN'', name = ''C1'', coord = (1, 2, 3)\<rparr>,
      \<lparr>chain = ''A'', resi = ''2'', resn = ''MAN'', name = ''C1'', coord = (4, 5, 6)\<rparr>]"

definition failing_host :: "atom list \<Rightarrow> vec \<Rightarrow> host" where
  "failing_host model center =
     \<lparr>get_model = (\<lambda>selection. model), matrix_rank = (\<lambda>m. Inr 0),
      svd_vh_last = (\<lambda>m. Inr (0, 0, 1)),
      raises = (\<lambda>fr. if fst (snd fr) = center then Some (Exn ''FloatingPointError'') else None)\<rparr>"

definition previous_objects :: objects where
  "previous_objects =
     (\<lambda>n. if n = ''snfg_all''
          then [[COLOR, Num 1, Num 0, Num 0, SPHERE, Num 0, Num 0, Num 0, Num 1]] else [])"

definition one_residue :: "atom list" where
  "one_residue =
     [\<lparr>chain = ''A'', resi = ''1'', resn = ''MAN'', name = ''C1'', coord = (1, 2, 3)\<rparr>]"

section \<open>Vectors: facts\<close>

lemma nums_proj: "nums v = [Num (fst v), Num (fst (snd v)), Num (snd (snd v))]"
  by (cases v) simp

lemma linalg_norm_sq: "linalg_norm v * linalg_norm v = dot v v"
proof (cases v)
  case (fields a b c)
  have "0 \<le> a * a + b * b + c * c" by simp
  then show ?thesis using fields by simp
qed

lemma linalg_norm_nonneg: "0 \<le> linalg_norm v"
  by (cases v) simp

lemma linalg_norm_one_iff: "linalg_norm v = 1 \<longleftrightarrow> dot v v = 1"
proof
  assume "linalg_norm v = 1"
  then show "dot v v = 1" using linalg_norm_sq [of v] by simp
next
  assume "dot v v = 1"
  then show "linalg_norm v = 1" by (cases v) simp
qed

lemma dot_vdiv: "dot (vdiv a s) b = dot a b / s"
  by (cases a; cases b) (simp add: add_divide_distrib)

lemma dot_vdiv_right: "dot a (vdiv b s) = dot a b / s"
  by (cases a; cases b) (simp add: add_divide_distrib)

lemma normalized_far: "1 / 10 ^ 9 \<le> linalg_norm v \<Longrightarrow> normalized v = vdiv v (linalg_norm v)"
  by (simp add: normalized_def normalize_vector_def Let_def)

lemma normalized_near: "linalg_norm v < 1 / 10 ^ 9 \<Longrightarrow> normalized v = (0, 0, 1)"
  by (simp add: normalized_def normalize_vector_def Let_def)

lemma linalg_norm_normalized: "linalg_norm (normalized v) = 1"
proof (cases "linalg_norm v < 1 / 10 ^ 9")
  case True
  then show ?thesis by (simp add: normalized_near)
next
  case False
  then have far: "1 / 10 ^ 9 \<le> linalg_norm v" by simp
  then have pos: "0 < linalg_norm v" by (smt (verit) zero_less_divide_1_iff zero_less_numeral zero_less_power)
  have "dot (vdiv v (linalg_norm v)) (vdiv v (linalg_norm v)) =
          dot v v / (linalg_norm v * linalg_norm v)"
    by (simp add: dot_vdiv dot_vdiv_right)
  also have "\<dots> = 1" using pos by (simp add: linalg_norm_sq [symmetric])
  finally show ?thesis
    using far by (simp add: normalized_far linalg_norm_one_iff)
qed

lemma normalized_of_unit: "linalg_norm v = 1 \<Longrightarrow> normalized v = v"
  by (cases v) (simp add: normalized_def normalize_vector_def Let_def)

lemma dot_cross_left: "dot (cross a b) a = 0"
  by (cases a; cases b) (simp add: algebra_simps)

lemma dot_cross_right: "dot (cross a b) b = 0"
  by (cases a; cases b) (simp add: algebra_simps)

lemma dot_commute: "dot a b = dot b a"
  by (cases a; cases b) (simp add: algebra_simps)

lemma lagrange: "dot (cross a b) (cross a b) = dot a a * dot b b - dot a b * dot a b"
  by (cases a; cases b) (simp add: algebra_simps)

lemma cross_cross_unit:
  assumes "dot u u = 1" and "dot u w = 0"
  shows "cross u (cross w u) = w"
proof (cases u)
  case u: (fields u1 u2 u3)
  show ?thesis
  proof (cases w)
    case w: (fields w1 w2 w3)
    from assms u w have n: "u1 * u1 + u2 * u2 + u3 * u3 = 1"
      and o: "u1 * w1 + u2 * w2 + u3 * w3 = 0" by simp_all
    have "u2 * (w1 * u2 - w2 * u1) - u3 * (w3 * u1 - w1 * u3)
            = w1 * (u1 * u1 + u2 * u2 + u3 * u3) - u1 * (u1 * w1 + u2 * w2 + u3 * w3)"
      by (simp add: algebra_simps)
    then have c1: "u2 * (w1 * u2 - w2 * u1) - u3 * (w3 * u1 - w1 * u3) = w1"
      unfolding n o by simp
    have "u3 * (w2 * u3 - w3 * u2) - u1 * (w1 * u2 - w2 * u1)
            = w2 * (u1 * u1 + u2 * u2 + u3 * u3) - u2 * (u1 * w1 + u2 * w2 + u3 * w3)"
      by (simp add: algebra_simps)
    then have c2: "u3 * (w2 * u3 - w3 * u2) - u1 * (w1 * u2 - w2 * u1) = w2"
      unfolding n o by simp
    have "u1 * (w3 * u1 - w1 * u3) - u2 * (w2 * u3 - w3 * u2)
            = w3 * (u1 * u1 + u2 * u2 + u3 * u3) - u3 * (u1 * w1 + u2 * w2 + u3 * w3)"
      by (simp add: algebra_simps)
    then have c3: "u1 * (w3 * u1 - w1 * u3) - u2 * (w2 * u3 - w3 * u2) = w3"
      unfolding n o by simp
    show ?thesis using c1 c2 c3 by (simp add: u w)
  qed
qed

lemma cross_anti: "cross a b = vscale (cross b a) (- 1)"
  by (cases a; cases b) simp

text \<open>A unit vector orthogonal to a unit vector: their cross product is a unit vector.\<close>

lemma cross_unit:
  assumes "dot a a = 1" and "dot b b = 1" and "dot a b = 0"
  shows "linalg_norm (cross a b) = 1"
  using assms by (simp add: linalg_norm_one_iff lagrange)

text \<open>Dividing a vector of positive norm by it keeps what it is orthogonal to.\<close>

lemma normalized_orthogonal:
  assumes "dot v w = 0"
    and "1 / 10 ^ 9 \<le> linalg_norm v"
  shows "dot (normalized v) w = 0"
  using assms by (simp add: normalized_far dot_vdiv)

text \<open>The normal case: X from the plane normal and Z, then Y from Z and X.\<close>

lemma frame_from_normal:
  assumes z: "linalg_norm z = 1"
    and far: "1 / 10 ^ 9 \<le> linalg_norm (cross w z)"
    and x: "x = normalized (cross w z)"
    and y: "y = normalized (cross z x)"
  shows "orthonormal_rh x y z"
proof -
  have zz: "dot z z = 1" using z by (simp add: linalg_norm_one_iff)
  have xz: "dot x z = 0" unfolding x by (rule normalized_orthogonal [OF dot_cross_right far])
  have xx: "dot x x = 1" unfolding x using linalg_norm_normalized linalg_norm_one_iff by blast
  have zx: "dot z x = 0" using xz dot_commute by simp
  have "linalg_norm (cross z x) = 1" by (rule cross_unit [OF zz xx zx])
  then have y': "y = cross z x" unfolding y by (rule normalized_of_unit)
  have yy: "linalg_norm y = 1" unfolding y by (rule linalg_norm_normalized)
  have yz: "dot y z = 0" unfolding y' by (rule dot_cross_left)
  have yx: "dot y x = 0" unfolding y' by (rule dot_cross_right)
  have "cross x y = z" unfolding y' by (rule cross_cross_unit [OF xx xz])
  then have "dot (cross x y) z = 1" using zz by simp
  moreover have "dot x y = 0" using yx dot_commute by simp
  moreover have "linalg_norm x = 1" using xx by (simp add: linalg_norm_one_iff)
  ultimately show ?thesis using yz xz yy z by (simp add: orthonormal_rh_def)
qed

lemma cross_cross_swap: "cross (cross u w) u = cross u (cross w u)"
  by (cases u; cases w) (simp add: algebra_simps)

text \<open>The near-parallel case: Y from Z and a helper vector, then X from Y and Z.\<close>

lemma frame_from_helper:
  assumes z: "linalg_norm z = 1"
    and far: "1 / 10 ^ 9 \<le> linalg_norm (cross z w)"
    and y: "y = normalized (cross z w)"
    and x: "x = normalized (cross y z)"
  shows "orthonormal_rh x y z"
proof -
  have zz: "dot z z = 1" using z by (simp add: linalg_norm_one_iff)
  have yz: "dot y z = 0" unfolding y by (rule normalized_orthogonal [OF dot_cross_left far])
  have yy: "dot y y = 1" unfolding y using linalg_norm_normalized linalg_norm_one_iff by blast
  have "linalg_norm (cross y z) = 1" by (rule cross_unit [OF yy zz yz])
  then have x': "x = cross y z" unfolding x by (rule normalized_of_unit)
  have xn: "linalg_norm x = 1" unfolding x by (rule linalg_norm_normalized)
  have xy: "dot x y = 0" unfolding x' by (rule dot_cross_left)
  have xz: "dot x z = 0" unfolding x' by (rule dot_cross_right)
  have "cross x y = z"
    unfolding x' cross_cross_swap by (rule cross_cross_unit [OF yy yz])
  then have "dot (cross x y) z = 1" using zz by simp
  moreover have "linalg_norm y = 1" using yy by (simp add: linalg_norm_one_iff)
  ultimately show ?thesis using xy yz xz xn z by (simp add: orthonormal_rh_def)
qed

text \<open>Two unit vectors that are not nearly parallel have a cross product far from zero.\<close>

lemma cross_far:
  assumes a: "linalg_norm a = 1" and b: "linalg_norm b = 1"
    and d: "\<bar>dot a b\<bar> \<le> 0.995"
  shows "1 / 10 ^ 9 \<le> linalg_norm (cross a b)"
proof (rule ccontr)
  assume "\<not> 1 / 10 ^ 9 \<le> linalg_norm (cross a b)"
  then have small: "linalg_norm (cross a b) < 1 / 10 ^ 9" by simp
  have nn: "0 \<le> linalg_norm (cross a b)" by (rule linalg_norm_nonneg)
  have "linalg_norm (cross a b) * linalg_norm (cross a b) \<le> (1 / 10 ^ 9) * (1 / 10 ^ 9)"
    using small nn by (intro mult_mono) simp_all
  then have le: "dot (cross a b) (cross a b) \<le> 1 / 10 ^ 18"
    by (simp add: linalg_norm_sq)
  have "\<bar>dot a b\<bar> * \<bar>dot a b\<bar> \<le> 0.995 * 0.995"
    using d by (intro mult_mono) simp_all
  then have dd: "dot a b * dot a b \<le> 0.990025" by (simp add: abs_mult_self_eq)
  have "dot (cross a b) (cross a b) = 1 - dot a b * dot a b"
    using a b by (simp add: lagrange linalg_norm_one_iff)
  with le dd show False by simp
qed

lemma xy_axes_orthonormal:
  assumes pn: "linalg_norm plane_normal = 1"
    and z: "linalg_norm z_axis = 1"
  shows "orthonormal_rh (fst (xy_axes plane_normal z_axis)) (snd (xy_axes plane_normal z_axis)) z_axis"
proof (cases "\<bar>dot plane_normal z_axis\<bar> > 0.995")
  case False
  then have "\<bar>dot plane_normal z_axis\<bar> \<le> 0.995" by simp
  then have far: "1 / 10 ^ 9 \<le> linalg_norm (cross plane_normal z_axis)"
    by (rule cross_far [OF pn z])
  show ?thesis
    using False frame_from_normal [OF z far refl refl]
    by (simp add: xy_axes_def Let_def)
next
  case True
  obtain z1 z2 z3 where zc: "z_axis = (z1, z2, z3)" by (cases z_axis)
  have zz: "z1 * z1 + z2 * z2 + z3 * z3 = 1"
    using z zc by (simp add: linalg_norm_one_iff)
  define temp_vec :: vec where
    "temp_vec = (if \<bar>dot (1, 0, 0) z_axis\<bar> > 0.99 then (0, 1, 0) else (1, 0, 0))"
  have tn: "linalg_norm temp_vec = 1" by (simp add: temp_vec_def)
  have "\<bar>dot z_axis temp_vec\<bar> \<le> 0.995"
  proof (cases "\<bar>z1\<bar> > 0.99")
    case False
    then show ?thesis by (simp add: temp_vec_def zc)
  next
    case big: True
    then have "0.99 * 0.99 \<le> \<bar>z1\<bar> * \<bar>z1\<bar>" by (intro mult_mono) simp_all
    then have "9801 / 10000 \<le> z1 * z1" by (simp add: abs_mult_self_eq)
    moreover have "0 \<le> z3 * z3" by simp
    ultimately have small: "z2 * z2 \<le> 199 / 10000"
      using zz by linarith
    have "\<bar>z2\<bar> \<le> 0.995"
    proof (rule ccontr)
      assume "\<not> \<bar>z2\<bar> \<le> 0.995"
      then have "0.995 * 0.995 \<le> \<bar>z2\<bar> * \<bar>z2\<bar>" by (intro mult_mono) simp_all
      then have "990025 / 1000000 \<le> z2 * z2" by (simp add: abs_mult_self_eq)
      with small show False by linarith
    qed
    with big show ?thesis by (simp add: temp_vec_def zc)
  qed
  then have far: "1 / 10 ^ 9 \<le> linalg_norm (cross z_axis temp_vec)"
    by (rule cross_far [OF z tn])
  show ?thesis
    using True frame_from_helper [OF z far refl refl]
    by (simp add: xy_axes_def Let_def temp_vec_def)
qed

lemma linalg_norm_unit [simp]:
  "linalg_norm (1, 0, 0) = 1" "linalg_norm (0, 1, 0) = 1" "linalg_norm (0, 0, 1) = 1"
  "linalg_norm (- 1, 0, 0) = 1" "linalg_norm (0, - 1, 0) = 1" "linalg_norm (0, 0, - 1) = 1"
  by simp_all

lemma normalized_unit [simp]:
  "normalized (1, 0, 0) = (1, 0, 0)" "normalized (0, 1, 0) = (0, 1, 0)"
  "normalized (0, 0, 1) = (0, 0, 1)"
  by (simp_all add: normalized_def normalize_vector_def)

section \<open>Properties of normalize_vector\<close>

text \<open>
  C6. A vector of Euclidean norm below \<open>1e-9\<close> is answered by exactly \<open>(0,0,1)\<close>
  together with one warning (the call returns, it does not raise); any other vector is
  answered by the vector divided by its norm, without a warning.
\<close>

theorem normalize_vector_cases:
  "(linalg_norm v < 1 / 10 ^ 9 \<longrightarrow>
      normalize_vector v = ((0, 0, 1), [NearZeroVector v])) \<and>
   (1 / 10 ^ 9 \<le> linalg_norm v \<longrightarrow>
      normalize_vector v = (vdiv v (linalg_norm v), []))"
  by (simp add: normalize_vector_def Let_def)

theorem normalize_vector_cases_witness:
  "linalg_norm (0, 0, 1 / 10 ^ 12) < 1 / 10 ^ 9 \<and>
   normalize_vector (0, 0, 1 / 10 ^ 12) = ((0, 0, 1), [NearZeroVector (0, 0, 1 / 10 ^ 12)]) \<and>
   1 / 10 ^ 9 \<le> linalg_norm (3, 0, 4) \<and>
   normalize_vector (3, 0, 4) = ((3 / 5, 0, 4 / 5), [])"
proof -
  have small: "linalg_norm (0, 0, 1 / 10 ^ 12) = 1 / 10 ^ 12"
    using real_sqrt_abs2 [of "1 / 10 ^ 12"] by simp
  have big: "linalg_norm (3, 0, 4) = 5"
    using real_sqrt_abs2 [of 5] by simp
  have s: "linalg_norm (0, 0, 1 / 10 ^ 12) < 1 / 10 ^ 9"
    unfolding small by simp
  have b: "1 / 10 ^ 9 \<le> linalg_norm (3, 0, 4)"
    unfolding big by simp
  from normalize_vector_cases [of "(0, 0, 1 / 10 ^ 12)"] s
  have r1: "normalize_vector (0, 0, 1 / 10 ^ 12) = ((0, 0, 1), [NearZeroVector (0, 0, 1 / 10 ^ 12)])"
    by blast
  from normalize_vector_cases [of "(3, 0, 4)"] b
  have "normalize_vector (3, 0, 4) = (vdiv (3, 0, 4) (linalg_norm (3, 0, 4)), [])"
    by blast
  then have r2: "normalize_vector (3, 0, 4) = ((3 / 5, 0, 4 / 5), [])"
    unfolding big by simp
  from s r1 b r2 show ?thesis by blast
qed

section \<open>Properties of the transformation\<close>

lemma identity_matrix:
  "get_transformation_matrix (1, 0, 0) (0, 1, 0) (0, 0, 1) = ((1, 0, 0), (0, 1, 0), (0, 0, 1))"
  by (simp add: get_transformation_matrix_def)

text \<open>
  C9. With the identity basis and the center \<open>(0,0,0)\<close>, \<open>transform_vertices\<close> returns
  the local vertices unchanged and in the same order.
\<close>

theorem transform_vertices_identity:
  "transform_vertices vertices (0, 0, 0)
     (get_transformation_matrix (1, 0, 0) (0, 1, 0) (0, 0, 1)) = vertices"
proof -
  have "(\<lambda>v. vadd (mat_dot ((1, 0, 0), (0, 1, 0), (0, 0, 1)) v) (0, 0, 0)) = (\<lambda>v. v)"
    by (rule ext) auto
  then show ?thesis
    unfolding transform_vertices_def identity_matrix by simp
qed

section \<open>Properties of the cube\<close>

lemma upt6: "[0..<6] = [0, 1, 2, 3, 4, 5]"
  by (simp add: upt_rec)

text \<open>
  C7. Whatever the center, the size, the color and the basis, the list of \<open>cgo_cube\<close>
  has 6 \<open>BEGIN\<close> and 6 \<open>END\<close>, they delimit 6 groups, and each group holds exactly 4
  \<open>VERTEX\<close> opcodes and exactly 1 \<open>NORMAL\<close> opcode.
\<close>

theorem cgo_cube_six_faces:
  "map (\<lambda>g. (count_list g VERTEX, count_list g NORMAL))
     (face_groups (cgo_cube x y z r color x_axis y_axis z_axis)) = replicate 6 (4, 1) \<and>
   count_list (cgo_cube x y z r color x_axis y_axis z_axis) BEGIN = 6 \<and>
   count_list (cgo_cube x y z r color x_axis y_axis z_axis) END = 6"
  by (simp add: cgo_cube_def Let_def upt6 cube_face_def face_groups_def strip_orders_def
      cube_vertices_local_def cube_normals_local_def transform_vertices_def transform_normals_def
      nums_proj numeral_eq_Suc)

section \<open>Properties of get_residue_orientation\<close>

lemma collect_atoms_keys_distinct:
  "distinct (map fst ra) \<Longrightarrow> distinct (map fst (collect_atoms model ra))"
  by (induction model arbitrary: ra) (simp_all add: Let_def AList.distinct_update)

lemma collect_atoms_lookup:
  "map_of (collect_atoms model ra) k =
     (if required_found model k = [] then map_of ra k
      else Some (dict_of (required_found model k)
                   (case map_of ra k of None \<Rightarrow> [] | Some d \<Rightarrow> d)))"
proof (induction model arbitrary: ra)
  case Nil
  then show ?case by (simp add: required_found_def)
next
  case (Cons a rest)
  show ?case
  proof (cases "name a \<in> set required_atoms")
    case False
    then show ?thesis using Cons.IH [of ra] by (simp add: required_found_def)
  next
    case req: True
    let ?ra = "AList.update (res_key_of a)
                 (AList.update (name a) (coord a)
                    (case map_of ra (res_key_of a) of None \<Rightarrow> [] | Some d \<Rightarrow> d)) ra"
    have step: "collect_atoms (a # rest) ra = collect_atoms rest ?ra"
      using req by (simp add: Let_def res_key_of_def)
    show ?thesis
    proof (cases "res_key_of a = k")
      case True
      then show ?thesis
        unfolding step using req Cons.IH [of ?ra]
        by (simp add: required_found_def dict_of_def AList.update_conv')
    next
      case False
      then show ?thesis
        unfolding step using req Cons.IH [of ?ra]
        by (simp add: required_found_def dict_of_def AList.update_conv')
    qed
  qed
qed

lemma residue_atoms_lookup:
  "map_of (collect_atoms model []) k =
     (if required_found model k = [] then None else Some (atoms_of model k))"
  by (simp add: collect_atoms_lookup atoms_of_def)

lemma dict_of_keys: "fst ` set (dict_of found d) = name ` set found \<union> fst ` set d"
  unfolding dict_of_def
  by (induction found arbitrary: d) (auto simp: AList.dom_update)

lemma dict_of_distinct: "distinct (map fst d) \<Longrightarrow> distinct (map fst (dict_of found d))"
  unfolding dict_of_def
  by (induction found arbitrary: d) (simp_all add: AList.distinct_update)

lemma atoms_of_length: "length (atoms_of model k) = n_required model k"
proof -
  have "distinct (map fst (atoms_of model k))"
    by (simp add: atoms_of_def dict_of_distinct)
  then have "length (atoms_of model k) = card (fst ` set (atoms_of model k))"
    by (metis distinct_card length_map set_map)
  then show ?thesis by (simp add: atoms_of_def dict_of_keys n_required_def)
qed

lemma map_filter_length:
  assumes "distinct ks" and "distinct (map fst al)" and "fst ` set al \<subseteq> set ks"
  shows "length (List.map_filter (map_of al) ks) = length al"
proof -
  have "length (List.map_filter (map_of al) ks) = length [k \<leftarrow> ks. map_of al k \<noteq> None]"
    by (simp add: List.map_filter_def)
  also have "\<dots> = card {k \<in> set ks. map_of al k \<noteq> None}"
    using assms(1) by (metis distinct_card distinct_filter set_filter)
  also have "{k \<in> set ks. map_of al k \<noteq> None} = fst ` set al"
    using assms(3) by (auto simp: map_of_eq_None_iff)
  also have "card (fst ` set al) = length al"
    using assms(2) by (metis distinct_card length_map set_map)
  finally show ?thesis .
qed

lemma center_coords_length:
  "length (coords_of required_atoms (atoms_of model k)) = n_required model k"
proof -
  have "distinct required_atoms" by (simp add: required_atoms_def)
  moreover have "distinct (map fst (atoms_of model k))"
    by (simp add: atoms_of_def dict_of_distinct)
  moreover have "fst ` set (atoms_of model k) \<subseteq> set required_atoms"
    by (auto simp: atoms_of_def dict_of_keys required_found_def)
  ultimately show ?thesis
    unfolding coords_of_def by (simp add: map_filter_length atoms_of_length)
qed

lemma orientations_lookup:
  "map_of (orientations h model) k =
     (if required_found model k = [] then None
      else Some (residue_orientation h k (atoms_of model k)))"
proof -
  have "map_of (map (\<lambda>(res_key, atoms). (res_key, residue_orientation h res_key atoms)) ra) k =
          map_option (residue_orientation h k) (map_of ra k)" for ra
    by (induction ra) auto
  then show ?thesis by (simp add: orientations_def residue_atoms_lookup)
qed

lemma orientations_values:
  "map_of (orientations h model) k = Some fr \<Longrightarrow> fr \<in> set (map snd (orientations h model))"
  by (metis map_of_SomeD image_eqI set_map snd_conv)

lemma n_required_pos: "0 < n_required model k \<longleftrightarrow> required_found model k \<noteq> []"
  by (simp add: n_required_def card_gt_0_iff)

lemma atoms_of_nonempty: "required_found model k \<noteq> [] \<Longrightarrow> atoms_of model k \<noteq> []"
  using atoms_of_length [of model k] n_required_pos [of model k] by auto

lemma atoms_of_lookup_None:
  "map_of (atoms_of model k) n = None \<longleftrightarrow> n \<notin> name ` set (required_found model k)"
  by (simp add: map_of_eq_None_iff atoms_of_def dict_of_keys)

lemma orthonormal_default: "orthonormal_rh default_x default_y default_z"
  by (simp add: orthonormal_rh_def default_x_def default_y_def default_z_def)

lemma plane_normal_unit: "linalg_norm (plane_normal_of h atoms) = 1"
  by (simp add: plane_normal_of_def Let_def default_z_def linalg_norm_normalized
      split: sum.splits)

lemma residue_orientation_few:
  assumes "length (coords_of required_atoms atoms) < 3" and "atoms \<noteq> []"
  shows "residue_orientation h k atoms =
           (snd (snd k), mean (map snd atoms), default_x, default_y, default_z)"
  using assms by (simp add: residue_orientation_def Let_def)

lemma residue_orientation_no_C4:
  assumes "3 \<le> length (coords_of required_atoms atoms)" and "map_of atoms ''C4'' = None"
  shows "residue_orientation h k atoms =
           (snd (snd k), mean (coords_of required_atoms atoms), default_x, default_y, default_z)"
  using assms by (simp add: residue_orientation_def Let_def)

lemma residue_orientation_coincident:
  assumes "3 \<le> length (coords_of required_atoms atoms)"
    and "map_of atoms ''C4'' = Some coord_C4"
    and "linalg_norm (vsub coord_C4 (mean (coords_of required_atoms atoms))) < 1 / 10 ^ 6"
  shows "residue_orientation h k atoms =
           (snd (snd k), mean (coords_of required_atoms atoms),
            fst (xy_axes (plane_normal_of h atoms) default_z),
            snd (xy_axes (plane_normal_of h atoms) default_z), default_z)"
  using assms by (simp add: residue_orientation_def Let_def isnan_any_def split: prod.splits)

lemma residue_orientation_orthonormal:
  assumes "residue_orientation h k atoms = (rn, c, x, y, z)"
  shows "orthonormal_rh x y z"
proof (cases "length (coords_of required_atoms atoms) < 3")
  case True
  with assms show ?thesis
    by (auto simp: residue_orientation_def Let_def orthonormal_default)
next
  case many: False
  show ?thesis
  proof (cases "map_of atoms ''C4''")
    case None
    with many assms show ?thesis
      by (auto simp: residue_orientation_def Let_def orthonormal_default)
  next
    case (Some coord_C4)
    define center where "center = mean (coords_of required_atoms atoms)"
    define z_axis where
      "z_axis = (if linalg_norm (vsub coord_C4 center) < 1 / 10 ^ 6 then default_z
                 else normalized (vsub coord_C4 center))"
    have zn: "linalg_norm z_axis = 1"
      by (simp add: z_axis_def default_z_def linalg_norm_normalized)
    have fr: "residue_orientation h k atoms =
                (snd (snd k), center, fst (xy_axes (plane_normal_of h atoms) z_axis),
                 snd (xy_axes (plane_normal_of h atoms) z_axis), z_axis)"
      using many Some
      by (simp add: residue_orientation_def Let_def isnan_any_def center_def z_axis_def
          split: prod.splits)
    from xy_axes_orthonormal [OF plane_normal_unit zn, of h atoms] fr assms
    show ?thesis by simp
  qed
qed

text \<open>Every frame of the result has exactly orthonormal, right-handed axes.\<close>

lemma orientations_orthonormal:
  assumes "map_of (orientations h model) k = Some (rn, center, x_axis, y_axis, z_axis)"
  shows "orthonormal_rh x_axis y_axis z_axis"
proof -
  from assms have "residue_orientation h k (atoms_of model k) = (rn, center, x_axis, y_axis, z_axis)"
    by (simp add: orientations_lookup split: if_splits)
  then show ?thesis by (rule residue_orientation_orthonormal)
qed

lemma n_required_found: "3 \<le> n_required model k \<Longrightarrow> required_found model k \<noteq> []"
  using n_required_pos [of model k] by simp

text \<open>
  C2. For a residue with at least 3 required atoms present, the frame returned for it
  has axes that are pairwise orthogonal, of norm 1 and right-handed: exactly, in real
  arithmetic, and so within the tolerances \<open>1e-3\<close> and \<open>1e-6\<close>. The
  plane normal enters only through \<open>normalize_vector\<close>, so this holds whatever the
  SVD of the host returns.
\<close>

theorem frame_orthonormal_right_handed:
  assumes "model = get_model h selection"
    and "3 \<le> n_required model k"
  shows "\<exists>rn center x_axis y_axis z_axis.
           map_of (orientations h model) k = Some (rn, center, x_axis, y_axis, z_axis) \<and>
           (rn, center, x_axis, y_axis, z_axis) \<in> set (get_residue_orientation h selection) \<and>
           orthonormal_rh x_axis y_axis z_axis \<and>
           \<bar>dot x_axis y_axis\<bar> \<le> 1 / 10 ^ 3 \<and> \<bar>dot y_axis z_axis\<bar> \<le> 1 / 10 ^ 3 \<and>
           \<bar>dot x_axis z_axis\<bar> \<le> 1 / 10 ^ 3 \<and>
           \<bar>linalg_norm x_axis - 1\<bar> \<le> 1 / 10 ^ 6 \<and> \<bar>linalg_norm y_axis - 1\<bar> \<le> 1 / 10 ^ 6 \<and>
           \<bar>linalg_norm z_axis - 1\<bar> \<le> 1 / 10 ^ 6 \<and>
           dot (cross x_axis y_axis) z_axis = 1"
proof -
  obtain rn center x_axis y_axis z_axis where
    fr: "residue_orientation h k (atoms_of model k) = (rn, center, x_axis, y_axis, z_axis)"
    by (metis prod_cases5)
  have look: "map_of (orientations h model) k = Some (rn, center, x_axis, y_axis, z_axis)"
    using n_required_found [OF assms(2)] fr by (simp add: orientations_lookup)
  then have mem: "(rn, center, x_axis, y_axis, z_axis) \<in> set (get_residue_orientation h selection)"
    unfolding get_residue_orientation_def assms(1) [symmetric] by (rule orientations_values)
  have on: "orthonormal_rh x_axis y_axis z_axis"
    using look by (rule orientations_orthonormal)
  then have "\<bar>dot x_axis y_axis\<bar> \<le> 1 / 10 ^ 3 \<and> \<bar>dot y_axis z_axis\<bar> \<le> 1 / 10 ^ 3 \<and>
           \<bar>dot x_axis z_axis\<bar> \<le> 1 / 10 ^ 3 \<and>
           \<bar>linalg_norm x_axis - 1\<bar> \<le> 1 / 10 ^ 6 \<and> \<bar>linalg_norm y_axis - 1\<bar> \<le> 1 / 10 ^ 6 \<and>
           \<bar>linalg_norm z_axis - 1\<bar> \<le> 1 / 10 ^ 6 \<and>
           dot (cross x_axis y_axis) z_axis = 1"
    by (simp add: orthonormal_rh_def)
  with look mem on show ?thesis by blast
qed

lemma triangle_n: "n_required triangle (''A'', ''1'', ''MAN'') = 3"
  by (simp add: n_required_def required_found_def triangle_def ring_atom_def res_key_of_def
      required_atoms_def)

lemma triangle_frame:
  "get_residue_orientation (example_host triangle 2 (0, 0, 1)) selection =
     [(''MAN'', (0, 1, 0), (- 1, 0, 0), (0, 0, 1), (0, 1, 0))]"
proof -
  let ?atoms = "[(''C1'', (1, 0, 0)), (''C2'', (- 1, 0, 0)), (''C4'', (0, 3, 0))]
                  :: (string \<times> vec) list"
  let ?h = "example_host triangle 2 (0, 0, 1)"
  have col: "collect_atoms triangle [] = [((''A'', ''1'', ''MAN''), ?atoms)]"
    by (simp add: triangle_def ring_atom_def required_atoms_def Let_def)
  have center: "mean (coords_of required_atoms ?atoms) = (0, 1, 0)"
    by (simp add: coords_of_def required_atoms_def List.map_filter_def mean_def)
  have pn: "plane_normal_of ?h ?atoms = (0, 0, 1)"
    by (simp add: plane_normal_of_def coords_of_def plane_atoms_def List.map_filter_def Let_def
        example_host_def)
  have two: "linalg_norm (0, 2, 0) = 2"
    using real_sqrt_abs2 [of 2] by simp
  have z: "normalized (0, 2, 0) = (0, 1, 0)"
    by (simp add: normalized_far two del: linalg_norm.simps)
  have xy: "xy_axes (0, 0, 1) (0, 1, 0) = ((- 1, 0, 0), (0, 0, 1))"
    by (simp add: xy_axes_def Let_def normalized_def normalize_vector_def)
  have "residue_orientation ?h (''A'', ''1'', ''MAN'') ?atoms =
          (''MAN'', (0, 1, 0), (- 1, 0, 0), (0, 0, 1), (0, 1, 0))"
    unfolding residue_orientation_def Let_def center pn
    by (simp add: coords_of_def required_atoms_def List.map_filter_def two z xy isnan_any_def
        del: linalg_norm.simps)
  then show ?thesis
    by (simp add: get_residue_orientation_def orientations_def col example_host_def [of triangle])
qed

theorem frame_orthonormal_right_handed_witness:
  "3 \<le> n_required (get_model (example_host triangle 2 (0, 0, 1)) ''all'') (''A'', ''1'', ''MAN'') \<and>
   get_residue_orientation (example_host triangle 2 (0, 0, 1)) ''all'' =
     [(''MAN'', (0, 1, 0), (- 1, 0, 0), (0, 0, 1), (0, 1, 0))] \<and>
   (\<exists>rn center x_axis y_axis z_axis.
      map_of (orientations (example_host triangle 2 (0, 0, 1)) triangle) (''A'', ''1'', ''MAN'') =
        Some (rn, center, x_axis, y_axis, z_axis) \<and>
      (rn, center, x_axis, y_axis, z_axis) \<in>
        set (get_residue_orientation (example_host triangle 2 (0, 0, 1)) ''all'') \<and>
      orthonormal_rh x_axis y_axis z_axis \<and>
      \<bar>dot x_axis y_axis\<bar> \<le> 1 / 10 ^ 3 \<and> \<bar>dot y_axis z_axis\<bar> \<le> 1 / 10 ^ 3 \<and>
      \<bar>dot x_axis z_axis\<bar> \<le> 1 / 10 ^ 3 \<and>
      \<bar>linalg_norm x_axis - 1\<bar> \<le> 1 / 10 ^ 6 \<and> \<bar>linalg_norm y_axis - 1\<bar> \<le> 1 / 10 ^ 6 \<and>
      \<bar>linalg_norm z_axis - 1\<bar> \<le> 1 / 10 ^ 6 \<and>
      dot (cross x_axis y_axis) z_axis = 1)"
proof -
  have m: "triangle = get_model (example_host triangle 2 (0, 0, 1)) ''all''"
    by (simp add: example_host_def)
  have n: "3 \<le> n_required triangle (''A'', ''1'', ''MAN'')"
    by (simp add: triangle_n)
  from frame_orthonormal_right_handed [OF m n] n m show ?thesis
    by (simp add: triangle_frame)
qed

section \<open>Missing atoms\<close>

lemma flat_ring_collect: "collect_atoms flat_ring [] = [((''A'', ''1'', ''NAG''), flat_ring_atoms)]"
  by (simp add: flat_ring_def flat_ring_atoms_def ring_atom_def required_atoms_def Let_def)

lemma flat_ring_found: "required_found flat_ring (''A'', ''1'', ''NAG'') = flat_ring"
  by (simp add: required_found_def flat_ring_def ring_atom_def res_key_of_def required_atoms_def)

lemma flat_ring_atoms_of: "atoms_of flat_ring (''A'', ''1'', ''NAG'') = flat_ring_atoms"
  unfolding atoms_of_def flat_ring_found
  by (simp add: dict_of_def flat_ring_def flat_ring_atoms_def ring_atom_def)

lemma flat_ring_n: "n_required flat_ring (''A'', ''1'', ''NAG'') = 5"
  unfolding atoms_of_length [symmetric] flat_ring_atoms_of by (simp add: flat_ring_atoms_def)

lemma flat_ring_center: "mean (coords_of required_atoms flat_ring_atoms) = (0, 0, 0)"
  by (simp add: coords_of_def required_atoms_def List.map_filter_def mean_def flat_ring_atoms_def)

lemma flat_ring_normal:
  "plane_normal_of (example_host model 2 vh_last) flat_ring_atoms = normalized vh_last"
  by (simp add: plane_normal_of_def coords_of_def plane_atoms_def List.map_filter_def Let_def
      example_host_def flat_ring_atoms_def)

lemma normalized_minus_x: "normalized (- 1, 0, 0) = (- 1, 0, 0)"
  by (simp add: normalized_def normalize_vector_def)

lemma xy_axes_plus: "xy_axes (1, 0, 0) (0, 0, 1) = ((0, - 1, 0), (1, 0, 0))"
  by (simp add: xy_axes_def Let_def normalized_def normalize_vector_def)

lemma xy_axes_minus: "xy_axes (- 1, 0, 0) (0, 0, 1) = ((0, 1, 0), (- 1, 0, 0))"
  by (simp add: xy_axes_def Let_def normalized_def normalize_vector_def)

lemma flat_ring_frame:
  "residue_orientation (example_host model 2 vh_last) k flat_ring_atoms =
     (snd (snd k), (0, 0, 0), fst (xy_axes (normalized vh_last) (0, 0, 1)),
      snd (xy_axes (normalized vh_last) (0, 0, 1)), (0, 0, 1))"
proof -
  have len: "3 \<le> length (coords_of required_atoms flat_ring_atoms)"
    by (simp add: coords_of_def required_atoms_def List.map_filter_def flat_ring_atoms_def)
  have c4: "map_of flat_ring_atoms ''C4'' = Some (0, 0, 0)"
    by (simp add: flat_ring_atoms_def)
  have near: "linalg_norm (vsub (0, 0, 0) (mean (coords_of required_atoms flat_ring_atoms)))
                < 1 / 10 ^ 6"
    unfolding flat_ring_center by simp
  show ?thesis
    unfolding residue_orientation_coincident [OF len c4 near] flat_ring_normal flat_ring_center
    by (simp add: default_z_def)
qed

lemma flat_ring_result:
  "get_residue_orientation (example_host flat_ring 2 vh_last) selection =
     [(''NAG'', (0, 0, 0), fst (xy_axes (normalized vh_last) (0, 0, 1)),
       snd (xy_axes (normalized vh_last) (0, 0, 1)), (0, 0, 1))]"
proof -
  have "get_model (example_host flat_ring 2 vh_last) selection = flat_ring"
    by (simp add: example_host_def)
  then show ?thesis
    by (simp add: get_residue_orientation_def orientations_def flat_ring_collect flat_ring_frame)
qed

text \<open>
  C1, as stated, fails: in the flat ring the center and C4 coincide, and the frame
  returned has the default Z axis but not the default X and Y axes, for either sign of
  the singular vector.
\<close>

theorem coincident_C4_not_default_basis:
  "3 \<le> n_required flat_ring (''A'', ''1'', ''NAG'') \<and>
   map_of (atoms_of flat_ring (''A'', ''1'', ''NAG'')) ''C4'' = Some (0, 0, 0) \<and>
   linalg_norm (vsub (0, 0, 0)
      (mean (coords_of required_atoms (atoms_of flat_ring (''A'', ''1'', ''NAG''))))) < 1 / 10 ^ 6 \<and>
   get_residue_orientation (example_host flat_ring 2 (1, 0, 0)) ''all'' =
     [(''NAG'', (0, 0, 0), (0, - 1, 0), (1, 0, 0), (0, 0, 1))] \<and>
   get_residue_orientation (example_host flat_ring 2 (- 1, 0, 0)) ''all'' =
     [(''NAG'', (0, 0, 0), (0, 1, 0), (- 1, 0, 0), (0, 0, 1))]"
  by (simp add: flat_ring_n flat_ring_atoms_of flat_ring_center flat_ring_result
      normalized_minus_x xy_axes_plus xy_axes_minus)
    (simp add: flat_ring_atoms_def)

text \<open>
  C1, as the code has it. For a residue with at least 3 required atoms present: when
  no C4 atom is among them, the frame has the mean of the required atoms as center and
  exactly the default basis; when C4 is present and within \<open>1e-6\<close> of that mean, the
  frame has exactly the default Z axis \<open>(0,0,1)\<close>, and its X and Y axes are those that
  step 4 derives from the plane normal and that Z axis.
\<close>

theorem missing_or_coincident_C4:
  assumes "model = get_model h selection"
    and "3 \<le> n_required model k"
    and "center = mean (coords_of required_atoms (atoms_of model k))"
  shows "(''C4'' \<notin> name ` set (required_found model k) \<longrightarrow>
            map_of (orientations h model) k =
              Some (snd (snd k), center, (1, 0, 0), (0, 1, 0), (0, 0, 1)) \<and>
            (snd (snd k), center, (1, 0, 0), (0, 1, 0), (0, 0, 1))
              \<in> set (get_residue_orientation h selection)) \<and>
         (\<forall>coord_C4.
            map_of (atoms_of model k) ''C4'' = Some coord_C4 \<and>
            linalg_norm (vsub coord_C4 center) < 1 / 10 ^ 6 \<longrightarrow>
            (\<exists>x_axis y_axis.
               (x_axis, y_axis) = xy_axes (plane_normal_of h (atoms_of model k)) (0, 0, 1) \<and>
               map_of (orientations h model) k =
                 Some (snd (snd k), center, x_axis, y_axis, (0, 0, 1)) \<and>
               (snd (snd k), center, x_axis, y_axis, (0, 0, 1))
                 \<in> set (get_residue_orientation h selection)))"
proof -
  have found: "required_found model k \<noteq> []"
    using assms(2) by (rule n_required_found)
  have len: "3 \<le> length (coords_of required_atoms (atoms_of model k))"
    using assms(2) by (simp add: center_coords_length)
  have in_result: "fr \<in> set (get_residue_orientation h selection)"
    if "map_of (orientations h model) k = Some fr" for fr
    using that unfolding get_residue_orientation_def assms(1) [symmetric]
    by (rule orientations_values)
  have absent: "map_of (orientations h model) k =
                  Some (snd (snd k), center, (1, 0, 0), (0, 1, 0), (0, 0, 1))"
    if "''C4'' \<notin> name ` set (required_found model k)"
  proof -
    from that have "map_of (atoms_of model k) ''C4'' = None"
      by (simp add: atoms_of_lookup_None)
    from residue_orientation_no_C4 [OF len this] found show ?thesis
      by (simp add: orientations_lookup assms(3) default_x_def default_y_def default_z_def)
  qed
  have near: "map_of (orientations h model) k =
                Some (snd (snd k), center,
                      fst (xy_axes (plane_normal_of h (atoms_of model k)) (0, 0, 1)),
                      snd (xy_axes (plane_normal_of h (atoms_of model k)) (0, 0, 1)), (0, 0, 1))"
    if "map_of (atoms_of model k) ''C4'' = Some coord_C4"
      and "linalg_norm (vsub coord_C4 center) < 1 / 10 ^ 6" for coord_C4
    using residue_orientation_coincident [OF len that(1) that(2) [unfolded assms(3)]] found
    by (simp add: orientations_lookup assms(3) default_z_def)
  show ?thesis
  proof (intro conjI impI allI)
    assume a: "''C4'' \<notin> name ` set (required_found model k)"
    show "map_of (orientations h model) k =
            Some (snd (snd k), center, (1, 0, 0), (0, 1, 0), (0, 0, 1))"
      using a by (rule absent)
    then show "(snd (snd k), center, (1, 0, 0), (0, 1, 0), (0, 0, 1))
                 \<in> set (get_residue_orientation h selection)"
      by (rule in_result)
  next
    fix coord_C4
    assume "map_of (atoms_of model k) ''C4'' = Some coord_C4 \<and>
            linalg_norm (vsub coord_C4 center) < 1 / 10 ^ 6"
    then have l: "map_of (orientations h model) k =
                Some (snd (snd k), center,
                      fst (xy_axes (plane_normal_of h (atoms_of model k)) (0, 0, 1)),
                      snd (xy_axes (plane_normal_of h (atoms_of model k)) (0, 0, 1)), (0, 0, 1))"
      using near by blast
    from l in_result [OF l]
    show "\<exists>x_axis y_axis.
               (x_axis, y_axis) = xy_axes (plane_normal_of h (atoms_of model k)) (0, 0, 1) \<and>
               map_of (orientations h model) k =
                 Some (snd (snd k), center, x_axis, y_axis, (0, 0, 1)) \<and>
               (snd (snd k), center, x_axis, y_axis, (0, 0, 1))
                 \<in> set (get_residue_orientation h selection)"
      by (metis prod.collapse)
  qed
qed

lemma no_c4_found: "required_found no_c4 (''A'', ''1'', ''MAN'') = no_c4"
  by (simp add: required_found_def no_c4_def ring_atom_def res_key_of_def required_atoms_def)

lemma no_c4_atoms_of:
  "atoms_of no_c4 (''A'', ''1'', ''MAN'') =
     [(''C1'', (3, 0, 0)), (''C2'', (0, 3, 0)), (''C3'', (0, 0, 3))]"
  unfolding atoms_of_def no_c4_found by (simp add: dict_of_def no_c4_def ring_atom_def)

lemma no_c4_n: "n_required no_c4 (''A'', ''1'', ''MAN'') = 3"
  unfolding atoms_of_length [symmetric] no_c4_atoms_of by simp

lemma no_c4_center:
  "mean (coords_of required_atoms (atoms_of no_c4 (''A'', ''1'', ''MAN''))) = (1, 1, 1)"
  unfolding no_c4_atoms_of
  by (simp add: coords_of_def required_atoms_def List.map_filter_def mean_def)

theorem missing_or_coincident_C4_witness:
  "3 \<le> n_required no_c4 (''A'', ''1'', ''MAN'') \<and>
   ''C4'' \<notin> name ` set (required_found no_c4 (''A'', ''1'', ''MAN'')) \<and>
   map_of (orientations (example_host no_c4 2 (0, 0, 1)) no_c4) (''A'', ''1'', ''MAN'') =
     Some (''MAN'', (1, 1, 1), (1, 0, 0), (0, 1, 0), (0, 0, 1)) \<and>
   3 \<le> n_required flat_ring (''A'', ''1'', ''NAG'') \<and>
   map_of (atoms_of flat_ring (''A'', ''1'', ''NAG'')) ''C4'' = Some (0, 0, 0) \<and>
   linalg_norm (vsub (0, 0, 0) (0, 0, 0)) < 1 / 10 ^ 6 \<and>
   (\<exists>x_axis y_axis.
      map_of (orientations (example_host flat_ring 2 (1, 0, 0)) flat_ring) (''A'', ''1'', ''NAG'') =
        Some (''NAG'', (0, 0, 0), x_axis, y_axis, (0, 0, 1)))"
proof -
  let ?k = "(''A'', ''1'', ''MAN'')" and ?k' = "(''A'', ''1'', ''NAG'')"
  have m: "no_c4 = get_model (example_host no_c4 2 (0, 0, 1)) ''all''"
    by (simp add: example_host_def)
  have n: "3 \<le> n_required no_c4 ?k" by (simp add: no_c4_n)
  have c: "(1, 1, 1) = mean (coords_of required_atoms (atoms_of no_c4 ?k))"
    by (simp add: no_c4_center)
  have a: "''C4'' \<notin> name ` set (required_found no_c4 ?k)"
    unfolding no_c4_found by (simp add: no_c4_def ring_atom_def)
  have r1: "map_of (orientations (example_host no_c4 2 (0, 0, 1)) no_c4) ?k =
              Some (''MAN'', (1, 1, 1), (1, 0, 0), (0, 1, 0), (0, 0, 1))"
    using missing_or_coincident_C4 [OF m n c] a by simp
  have m': "flat_ring = get_model (example_host flat_ring 2 (1, 0, 0)) ''all''"
    by (simp add: example_host_def)
  have n': "3 \<le> n_required flat_ring ?k'" by (simp add: flat_ring_n)
  have c': "(0, 0, 0) = mean (coords_of required_atoms (atoms_of flat_ring ?k'))"
    by (simp add: flat_ring_atoms_of flat_ring_center)
  have p: "map_of (atoms_of flat_ring ?k') ''C4'' = Some (0, 0, 0)"
    by (simp add: flat_ring_atoms_of flat_ring_atoms_def)
  have q: "linalg_norm (vsub (0, 0, 0) (0, 0, 0)) < 1 / 10 ^ 6" by simp
  have r2: "\<exists>x_axis y_axis.
      map_of (orientations (example_host flat_ring 2 (1, 0, 0)) flat_ring) ?k' =
        Some (''NAG'', (0, 0, 0), x_axis, y_axis, (0, 0, 1))"
    using missing_or_coincident_C4 [OF m' n' c'] p q by fastforce
  from n a r1 n' p q r2 show ?thesis by blast
qed

section \<open>Fewer than 3 required atoms\<close>

text \<open>
  C3, as stated, fails: a residue that is in the selection and has none of the required
  atoms (here a single C6) has fewer than 3 of them and gets no frame.
\<close>

theorem no_required_atom_no_frame:
  "(''A'', ''1'', ''NAG'') \<in> res_key_of ` set (get_model (example_host no_ring_atom 0 (0, 0, 1)) ''all'') \<and>
   n_required (get_model (example_host no_ring_atom 0 (0, 0, 1)) ''all'') (''A'', ''1'', ''NAG'') < 3 \<and>
   get_residue_orientation (example_host no_ring_atom 0 (0, 0, 1)) ''all'' = []"
  by (simp add: example_host_def no_ring_atom_def ring_atom_def res_key_of_def n_required_def
      required_found_def required_atoms_def get_residue_orientation_def orientations_def)

text \<open>
  C3, as the code has it. A residue with one or two required atoms present gets a
  frame: its center is the mean of the coordinates of those atoms and its axes are the
  default basis. The function has no failing branch.
\<close>

theorem few_required_atoms_frame:
  assumes "model = get_model h selection"
    and "0 < n_required model k"
    and "n_required model k < 3"
  shows "map_of (orientations h model) k =
           Some (snd (snd k), mean (map snd (atoms_of model k)), (1, 0, 0), (0, 1, 0), (0, 0, 1)) \<and>
         (snd (snd k), mean (map snd (atoms_of model k)), (1, 0, 0), (0, 1, 0), (0, 0, 1))
           \<in> set (get_residue_orientation h selection)"
proof -
  have found: "required_found model k \<noteq> []"
    using assms(2) by (simp add: n_required_pos)
  have len: "length (coords_of required_atoms (atoms_of model k)) < 3"
    using assms(3) by (simp add: center_coords_length)
  have look: "map_of (orientations h model) k =
           Some (snd (snd k), mean (map snd (atoms_of model k)), (1, 0, 0), (0, 1, 0), (0, 0, 1))"
    using residue_orientation_few [OF len atoms_of_nonempty [OF found]] found
    by (simp add: orientations_lookup default_x_def default_y_def default_z_def)
  then have "(snd (snd k), mean (map snd (atoms_of model k)), (1, 0, 0), (0, 1, 0), (0, 0, 1))
           \<in> set (get_residue_orientation h selection)"
    unfolding get_residue_orientation_def assms(1) [symmetric] by (rule orientations_values)
  with look show ?thesis by simp
qed

lemma two_atoms_found: "required_found two_atoms (''A'', ''1'', ''MAN'') = two_atoms"
  by (simp add: required_found_def two_atoms_def ring_atom_def res_key_of_def required_atoms_def)

lemma two_atoms_of:
  "atoms_of two_atoms (''A'', ''1'', ''MAN'') = [(''C1'', (1, 2, 3)), (''O5'', (3, 4, 5))]"
  unfolding atoms_of_def two_atoms_found by (simp add: dict_of_def two_atoms_def ring_atom_def)

lemma two_atoms_n: "n_required two_atoms (''A'', ''1'', ''MAN'') = 2"
  unfolding atoms_of_length [symmetric] two_atoms_of by simp

theorem few_required_atoms_frame_witness:
  "0 < n_required two_atoms (''A'', ''1'', ''MAN'') \<and>
   n_required two_atoms (''A'', ''1'', ''MAN'') < 3 \<and>
   map_of (orientations (example_host two_atoms 0 (0, 0, 1)) two_atoms) (''A'', ''1'', ''MAN'') =
     Some (''MAN'', (2, 3, 4), (1, 0, 0), (0, 1, 0), (0, 0, 1)) \<and>
   (''MAN'', (2, 3, 4), (1, 0, 0), (0, 1, 0), (0, 0, 1))
     \<in> set (get_residue_orientation (example_host two_atoms 0 (0, 0, 1)) ''all'')"
proof -
  let ?k = "(''A'', ''1'', ''MAN'')"
  have m: "two_atoms = get_model (example_host two_atoms 0 (0, 0, 1)) ''all''"
    by (simp add: example_host_def)
  have lo: "0 < n_required two_atoms ?k" and hi: "n_required two_atoms ?k < 3"
    by (simp_all add: two_atoms_n)
  have c: "mean (map snd (atoms_of two_atoms ?k)) = (2, 3, 4)"
    unfolding two_atoms_of by (simp add: mean_def)
  from few_required_atoms_frame [OF m lo hi] lo hi show ?thesis
    unfolding c by simp
qed

section \<open>Properties of the star\<close>

lemma upt5: "[0..<5] = [0, 1, 2, 3, 4]"
  by (simp add: upt_rec)

lemma mat_dot_transpose_y: "mat_dot (transpose_mat (a, b, c)) (0, 1, 0) = b"
  by (cases a; cases b; cases c) simp

lemma mat_dot_transpose_minus_y: "mat_dot (transpose_mat (a, b, c)) (0, - 1, 0) = vscale b (- 1)"
  by (cases a; cases b; cases c) simp

lemma linalg_norm_negate: "linalg_norm (vscale v (- 1)) = linalg_norm v"
  by (cases v) simp

lemma local_y: "mat_dot (get_transformation_matrix x_axis y_axis z_axis) (0, 1, 0) = normalized y_axis"
  by (simp add: get_transformation_matrix_def mat_dot_transpose_y)

lemma normal_front:
  "normalized (mat_dot (get_transformation_matrix x_axis y_axis z_axis) (0, 1, 0)) =
     mat_dot (get_transformation_matrix x_axis y_axis z_axis) (0, 1, 0)"
  unfolding local_y by (rule normalized_of_unit) (rule linalg_norm_normalized)

lemma normal_back:
  "normalized (mat_dot (get_transformation_matrix x_axis y_axis z_axis) (0, - 1, 0)) =
     vscale (mat_dot (get_transformation_matrix x_axis y_axis z_axis) (0, 1, 0)) (- 1)"
  unfolding local_y
  by (simp add: get_transformation_matrix_def mat_dot_transpose_minus_y normalized_of_unit
      linalg_norm_negate linalg_norm_normalized)

lemma scaled_unit_norm:
  fixes c s radius :: real
  assumes "c * c + s * s = 1"
  shows "sqrt (radius * c * (radius * c) + 0 * 0 + radius * s * (radius * s)) = \<bar>radius\<bar>"
proof -
  have "radius * c * (radius * c) + 0 * 0 + radius * s * (radius * s)
          = radius * radius * (c * c + s * s)"
    by (simp add: algebra_simps)
  then show ?thesis unfolding assms by simp
qed

lemma star_rim_norm: "linalg_norm (star_rim radius offset i) = \<bar>radius\<bar>"
  unfolding star_rim_def linalg_norm.simps
  by (rule scaled_unit_norm) (rule sin_cos_squared_add3)

lemma star_rim_rotated: "star_rim radius offset i = rotate_xz offset (star_rim radius 0 i)"
  by (simp add: star_rim_def rotate_xz_def radians_def cos_add sin_add algebra_simps)

lemma star_groups:
  "face_groups (cgo_star x y z r color x_axis y_axis z_axis) =
     (let rotation_matrix = get_transformation_matrix x_axis y_axis z_axis;
          to_global = (\<lambda>p. vadd (mat_dot rotation_matrix p) (x, y, z));
          outer = (\<lambda>i. to_global (star_rim r 0 i));
          inner = (\<lambda>i. to_global (star_rim (0.45 * r) 36 i));
          local_y = mat_dot rotation_matrix (0, 1, 0)
      in [star_fan local_y (to_global (0, 0.6 * r, 0)) outer inner,
          star_fan (vscale local_y (- 1)) (to_global (0, - 0.6 * r, 0)) outer inner])"
  by (simp add: cgo_star_def Let_def upt5 face_groups_def transform_vertices_def
      transform_normals_def normal_front normal_back star_fan_def star_rim_def nums_proj
      radians_def)

lemma dot_expand_columns:
  "dot (mat_dot (transpose_mat (a, b, c)) p) (mat_dot (transpose_mat (a, b, c)) p) =
     fst p * fst p * dot a a + fst (snd p) * fst (snd p) * dot b b
     + snd (snd p) * snd (snd p) * dot c c
     + 2 * (fst p * fst (snd p)) * dot a b + 2 * (fst (snd p) * snd (snd p)) * dot b c
     + 2 * (fst p * snd (snd p)) * dot a c"
  by (cases a; cases b; cases c; cases p) (simp add: algebra_simps)

text \<open>An orthonormal basis gives a matrix that keeps the norm of every vector.\<close>

lemma rotation_keeps_norm:
  assumes "orthonormal_rh x_axis y_axis z_axis"
  shows "linalg_norm (mat_dot (get_transformation_matrix x_axis y_axis z_axis) p) = linalg_norm p"
proof -
  from assms have xy: "dot x_axis y_axis = 0" and yz: "dot y_axis z_axis = 0"
    and xz: "dot x_axis z_axis = 0"
    and nx: "linalg_norm x_axis = 1" and ny: "linalg_norm y_axis = 1"
    and nz: "linalg_norm z_axis = 1"
    by (simp_all add: orthonormal_rh_def)
  have m: "get_transformation_matrix x_axis y_axis z_axis = transpose_mat (x_axis, y_axis, z_axis)"
    by (simp add: get_transformation_matrix_def normalized_of_unit nx ny nz)
  have xx: "dot x_axis x_axis = 1" and yy: "dot y_axis y_axis = 1" and zz: "dot z_axis z_axis = 1"
    using nx ny nz by (simp_all add: linalg_norm_one_iff)
  let ?q = "mat_dot (transpose_mat (x_axis, y_axis, z_axis)) p"
  have "dot ?q ?q = dot p p"
    unfolding dot_expand_columns xx yy zz xy yz xz by (cases p) simp
  then have "linalg_norm ?q * linalg_norm ?q = linalg_norm p * linalg_norm p"
    by (simp add: linalg_norm_sq)
  then have "linalg_norm ?q = linalg_norm p"
    using linalg_norm_nonneg [of ?q] linalg_norm_nonneg [of p]
    by (metis abs_of_nonneg real_sqrt_abs2)
  then show ?thesis by (simp add: m)
qed

lemma vsub_vadd: "vsub (vadd a b) b = a"
  by (cases a; cases b) simp

lemma mat_dot_columns:
  "vadd (mat_dot (get_transformation_matrix x_axis y_axis z_axis) p) center =
     in_basis (normalized x_axis) (normalized y_axis) (normalized z_axis) center p"
  unfolding get_transformation_matrix_def in_basis_def
  by (cases "normalized x_axis"; cases "normalized y_axis"; cases "normalized z_axis"; cases p;
      cases center) (simp add: algebra_simps)

lemma star_groups_axes:
  "face_groups (cgo_star x y z r color x_axis y_axis z_axis) =
     (let ex = normalized x_axis; ey = normalized y_axis; ez = normalized z_axis;
          center = (x, y, z);
          outer = (\<lambda>i. in_basis ex ey ez center (star_rim r 0 i));
          inner = (\<lambda>i. in_basis ex ey ez center (star_rim (0.45 * r) 36 i))
      in [star_fan ey (in_basis ex ey ez center (0, 0.6 * r, 0)) outer inner,
          star_fan (vscale ey (- 1)) (in_basis ex ey ez center (0, - 0.6 * r, 0)) outer inner])"
  using star_groups [of x y z r color x_axis y_axis z_axis]
  unfolding Let_def mat_dot_columns local_y .

lemma orthonormal_normalized:
  assumes "orthonormal_rh x_axis y_axis z_axis"
  shows "normalized x_axis = x_axis" and "normalized y_axis = y_axis"
    and "normalized z_axis = z_axis"
  using assms by (simp_all add: orthonormal_rh_def normalized_of_unit)

lemma in_basis_distance:
  assumes "orthonormal_rh x_axis y_axis z_axis"
  shows "linalg_norm (vsub (in_basis (normalized x_axis) (normalized y_axis) (normalized z_axis)
                              center p) center) = linalg_norm p"
  unfolding mat_dot_columns [symmetric] vsub_vadd using assms by (rule rotation_keeps_norm)

text \<open>
  C8. Whatever the center, the radius, the color and the basis, the list of \<open>cgo_star\<close>
  has two groups, the front and the back side. Each is a triangle fan with one normal,
  the apex, then 5 outer and 5 inner rim vertices in turn and the first outer vertex
  again. The normals are the normalised Y axis of the basis (of norm 1: the Y axis
  divided by its norm, unless that is below \<open>1e-9\<close>) and its opposite. Every
  vertex is the center plus its local coordinates along the normalised axes of the
  basis: the outer points have local radius \<open>r\<close>, the inner points local radius
  \<open>0.45 r\<close> (the norm is \<open>\<bar>r\<bar>\<close>) and each inner point is its rim point rotated by
  36 degrees. When the basis is orthonormal, as every frame of
  \<open>get_residue_orientation\<close> is, the axes are used as given and the vertices emitted
  lie at these distances from the center.
\<close>

theorem cgo_star_two_fans:
  "(let ex = normalized x_axis; ey = normalized y_axis; ez = normalized z_axis;
        center = (x, y, z);
        outer = (\<lambda>i. in_basis ex ey ez center (star_rim r 0 i));
        inner = (\<lambda>i. in_basis ex ey ez center (star_rim (0.45 * r) 36 i))
    in face_groups (cgo_star x y z r color x_axis y_axis z_axis) =
         [star_fan ey (in_basis ex ey ez center (0, 0.6 * r, 0)) outer inner,
          star_fan (vscale ey (- 1)) (in_basis ex ey ez center (0, - 0.6 * r, 0)) outer inner] \<and>
       linalg_norm ey = 1 \<and>
       (1 / 10 ^ 9 \<le> linalg_norm y_axis \<longrightarrow> ey = vdiv y_axis (linalg_norm y_axis)) \<and>
       (orthonormal_rh x_axis y_axis z_axis \<longrightarrow>
          ex = x_axis \<and> ey = y_axis \<and> ez = z_axis \<and>
          linalg_norm (vsub (outer i) center) = \<bar>r\<bar> \<and>
          linalg_norm (vsub (inner i) center) = 0.45 * \<bar>r\<bar>)) \<and>
   linalg_norm (star_rim r 0 i) = \<bar>r\<bar> \<and>
   linalg_norm (star_rim (0.45 * r) 36 i) = 0.45 * \<bar>r\<bar> \<and>
   star_rim (0.45 * r) 36 i = rotate_xz 36 (star_rim (0.45 * r) 0 i)"
proof -
  let ?ex = "normalized x_axis" and ?ey = "normalized y_axis" and ?ez = "normalized z_axis"
  have inner: "linalg_norm (star_rim (0.45 * r) 36 i) = 0.45 * \<bar>r\<bar>"
    unfolding star_rim_norm by (simp add: abs_mult)
  have groups: "face_groups (cgo_star x y z r color x_axis y_axis z_axis) =
      [star_fan ?ey (in_basis ?ex ?ey ?ez (x, y, z) (0, 0.6 * r, 0))
         (\<lambda>i. in_basis ?ex ?ey ?ez (x, y, z) (star_rim r 0 i))
         (\<lambda>i. in_basis ?ex ?ey ?ez (x, y, z) (star_rim (0.45 * r) 36 i)),
       star_fan (vscale ?ey (- 1)) (in_basis ?ex ?ey ?ez (x, y, z) (0, - 0.6 * r, 0))
         (\<lambda>i. in_basis ?ex ?ey ?ez (x, y, z) (star_rim r 0 i))
         (\<lambda>i. in_basis ?ex ?ey ?ez (x, y, z) (star_rim (0.45 * r) 36 i))]"
    using star_groups_axes [of x y z r color x_axis y_axis z_axis] unfolding Let_def .
  have ortho: "?ex = x_axis \<and> ?ey = y_axis \<and> ?ez = z_axis \<and>
      linalg_norm (vsub (in_basis ?ex ?ey ?ez (x, y, z) (star_rim r 0 i)) (x, y, z)) = \<bar>r\<bar> \<and>
      linalg_norm (vsub (in_basis ?ex ?ey ?ez (x, y, z) (star_rim (0.45 * r) 36 i)) (x, y, z))
        = 0.45 * \<bar>r\<bar>"
    if on: "orthonormal_rh x_axis y_axis z_axis"
    unfolding in_basis_distance [OF on] star_rim_norm [of r 0 i] inner
    using orthonormal_normalized [OF on] by simp
  have unit: "linalg_norm ?ey = 1" by (rule linalg_norm_normalized)
  have far: "?ey = vdiv y_axis (linalg_norm y_axis)" if "1 / 10 ^ 9 \<le> linalg_norm y_axis"
    using that by (rule normalized_far)
  show ?thesis
    unfolding Let_def
    using groups unit far ortho star_rim_norm [of r 0 i] inner
      star_rim_rotated [of "0.45 * r" 36 i]
    by blast
qed


theorem cgo_star_two_fans_witness:
  "orthonormal_rh (0, 1, 0) (- 1, 0, 0) (0, 0, 1) \<and>
   take 13 (face_groups (cgo_star 5 6 7 2 (1, 0, 0) (0, 1, 0) (- 1, 0, 0) (0, 0, 1)) ! 0) =
     [TRIANGLE_FAN, NORMAL, Num (- 1), Num 0, Num 0, VERTEX, Num 3.8, Num 6, Num 7,
      VERTEX, Num 5, Num 8, Num 7] \<and>
   take 5 (face_groups (cgo_star 5 6 7 2 (1, 0, 0) (0, 1, 0) (- 1, 0, 0) (0, 0, 1)) ! 1) =
     [TRIANGLE_FAN, NORMAL, Num 1, Num 0, Num 0] \<and>
   linalg_norm (vsub (in_basis (0, 1, 0) (- 1, 0, 0) (0, 0, 1) (5, 6, 7) (star_rim 2 0 0))
                  (5, 6, 7)) = 2"
proof -
  let ?star = "cgo_star 5 6 7 2 (1, 0, 0) (0, 1, 0) (- 1, 0, 0) (0, 0, 1)"
  have on: "orthonormal_rh (0, 1, 0) (- 1, 0, 0) (0, 0, 1)"
    by (simp add: orthonormal_rh_def)
  have rim: "star_rim 2 0 0 = (2, 0, 0)"
    by (simp add: star_rim_def radians_def)
  have two: "\<bar>2 :: real\<bar> = 2" by simp
  note fans = cgo_star_two_fans [of "(0, 1, 0)" "(- 1, 0, 0)" "(0, 0, 1)" 5 6 7 2 "(1, 0, 0)" 0,
      unfolded Let_def normalized_unit normalized_minus_x]
  from fans have groups: "face_groups ?star =
      [star_fan (- 1, 0, 0) (in_basis (0, 1, 0) (- 1, 0, 0) (0, 0, 1) (5, 6, 7) (0, 0.6 * 2, 0))
         (\<lambda>i. in_basis (0, 1, 0) (- 1, 0, 0) (0, 0, 1) (5, 6, 7) (star_rim 2 0 i))
         (\<lambda>i. in_basis (0, 1, 0) (- 1, 0, 0) (0, 0, 1) (5, 6, 7) (star_rim (0.45 * 2) 36 i)),
       star_fan (vscale (- 1, 0, 0) (- 1))
         (in_basis (0, 1, 0) (- 1, 0, 0) (0, 0, 1) (5, 6, 7) (0, - 0.6 * 2, 0))
         (\<lambda>i. in_basis (0, 1, 0) (- 1, 0, 0) (0, 0, 1) (5, 6, 7) (star_rim 2 0 i))
         (\<lambda>i. in_basis (0, 1, 0) (- 1, 0, 0) (0, 0, 1) (5, 6, 7) (star_rim (0.45 * 2) 36 i))]"
    by blast
  have front: "take 13 (face_groups ?star ! 0) =
     [TRIANGLE_FAN, NORMAL, Num (- 1), Num 0, Num 0, VERTEX, Num 3.8, Num 6, Num 7,
      VERTEX, Num 5, Num 8, Num 7]"
    unfolding groups by (simp add: star_fan_def in_basis_def rim)
  have rear: "take 5 (face_groups ?star ! 1) = [TRIANGLE_FAN, NORMAL, Num 1, Num 0, Num 0]"
    unfolding groups by (simp add: star_fan_def)
  from fans on
  have "linalg_norm (vsub (in_basis (0, 1, 0) (- 1, 0, 0) (0, 0, 1) (5, 6, 7) (star_rim 2 0 0))
                       (5, 6, 7)) = \<bar>2\<bar>"
    by blast
  then have dist: "linalg_norm (vsub (in_basis (0, 1, 0) (- 1, 0, 0) (0, 0, 1) (5, 6, 7)
                                       (star_rim 2 0 0)) (5, 6, 7)) = 2"
    unfolding two .
  from on front rear dist show ?thesis by blast
qed

section \<open>Properties of render_snfg\<close>

lemma nums_nonempty: "nums v \<noteq> []"
  by (simp add: nums_proj)

lemma shape_cgo_nonempty: "snd (shape_cgo scale rn color shape x y z x_axis y_axis z_axis) \<noteq> []"
  by (simp add: shape_cgo_def Let_def cgo_sphere_def cgo_star_def cgo_cone_def cgo_cube_def
      cgo_diamond_def cgo_half_diamond_def)

lemma debug_axes_cgo_nonempty: "debug_axes_cgo scale center x_axis y_axis z_axis \<noteq> []"
  by (simp add: debug_axes_cgo_def Let_def)

lemma generated_nonempty: "known fr \<Longrightarrow> generated scale fr \<noteq> []"
  by (auto simp: known_def generated_def shape_cgo_nonempty split: prod.splits option.splits)

text \<open>One iteration, by the three ways it can go.\<close>

lemma render_residue_unknown_eq:
  assumes "map_of snfg_shapes rn = None"
  shows "render_residue h scale debug_axes (rn, center, x_axis, y_axis, z_axis)
           (cgo_objects, debug_cgo_objects, processed_count, out) =
         (cgo_objects, debug_cgo_objects, processed_count,
          out @ [Skipping_not_in_shapes rn center])"
  using assms by (simp add: render_residue_def)

lemma render_residue_raises_eq:
  assumes "map_of snfg_shapes rn = Some (color, shape)"
    and "raises h (rn, (x, y, z), x_axis, y_axis, z_axis) = Some e"
  shows "render_residue h scale debug_axes (rn, (x, y, z), x_axis, y_axis, z_axis)
           (cgo_objects, debug_cgo_objects, processed_count, out) =
         (cgo_objects, debug_cgo_objects, processed_count,
          out @ fst (shape_cgo scale rn color shape x y z x_axis y_axis z_axis)
            @ [Error_generating rn (x, y, z) e])"
  using assms by (simp add: render_residue_def split: prod.splits)

lemma render_residue_ok_eq:
  assumes "map_of snfg_shapes rn = Some (color, shape)"
    and "raises h (rn, (x, y, z), x_axis, y_axis, z_axis) = None"
  shows "render_residue h scale debug_axes (rn, (x, y, z), x_axis, y_axis, z_axis)
           (cgo_objects, debug_cgo_objects, processed_count, out) =
         (cgo_objects @ snd (shape_cgo scale rn color shape x y z x_axis y_axis z_axis),
          debug_cgo_objects @
            (if debug_axes then debug_axes_cgo scale (x, y, z) x_axis y_axis z_axis else []),
          processed_count + 1,
          out @ fst (shape_cgo scale rn color shape x y z x_axis y_axis z_axis))"
proof -
  obtain warn cgo_obj where
    sc: "shape_cgo scale rn color shape x y z x_axis y_axis z_axis = (warn, cgo_obj)"
    by (cases "shape_cgo scale rn color shape x y z x_axis y_axis z_axis") simp
  have "cgo_obj \<noteq> []"
    using shape_cgo_nonempty [of scale rn color shape x y z x_axis y_axis z_axis] sc by simp
  then show ?thesis
    using assms by (simp add: render_residue_def isnan_any_def sc)
qed

lemma render_residue_unknown:
  assumes "\<not> known fr"
  shows "cgo_objects_of (render_residue h scale debug_axes fr acc) = cgo_objects_of acc"
    and "debug_cgo_objects_of (render_residue h scale debug_axes fr acc) = debug_cgo_objects_of acc"
proof -
  obtain rn center x_axis y_axis z_axis where fr: "fr = (rn, center, x_axis, y_axis, z_axis)"
    by (metis prod_cases5)
  obtain c d n out where acc: "acc = (c, d, n, out)" by (metis prod_cases4)
  from assms have "map_of snfg_shapes rn = None"
    by (cases "map_of snfg_shapes rn") (auto simp: known_def fr)
  then have eq: "render_residue h scale debug_axes fr acc =
                   (c, d, n, out @ [Skipping_not_in_shapes rn center])"
    unfolding fr acc by (rule render_residue_unknown_eq)
  note eq = eq [unfolded fr acc]
  show "cgo_objects_of (render_residue h scale debug_axes fr acc) = cgo_objects_of acc"
    unfolding fr acc by (simp add: eq cgo_objects_of_def)
  show "debug_cgo_objects_of (render_residue h scale debug_axes fr acc) = debug_cgo_objects_of acc"
    unfolding fr acc by (simp add: eq debug_cgo_objects_of_def)
qed

lemma render_residue_raises:
  assumes "known fr" and "raises h fr = Some e"
  shows "cgo_objects_of (render_residue h scale debug_axes fr acc) = cgo_objects_of acc"
    and "debug_cgo_objects_of (render_residue h scale debug_axes fr acc) = debug_cgo_objects_of acc"
    and "Error_generating (fst fr) (fst (snd fr)) e
           \<in> set (printed_of (render_residue h scale debug_axes fr acc))"
proof -
  obtain rn x y z x_axis y_axis z_axis where fr: "fr = (rn, (x, y, z), x_axis, y_axis, z_axis)"
    by (metis prod_cases3)
  obtain c d n out where acc: "acc = (c, d, n, out)" by (metis prod_cases4)
  from assms(1) obtain color shape where "map_of snfg_shapes rn = Some (color, shape)"
    by (cases "map_of snfg_shapes rn") (auto simp: known_def fr)
  then have eq: "render_residue h scale debug_axes fr acc =
         (c, d, n, out @ fst (shape_cgo scale rn color shape x y z x_axis y_axis z_axis)
            @ [Error_generating rn (x, y, z) e])"
    unfolding fr acc using assms(2) [unfolded fr] by (rule render_residue_raises_eq)
  note eq = eq [unfolded fr acc]
  show "cgo_objects_of (render_residue h scale debug_axes fr acc) = cgo_objects_of acc"
    unfolding fr acc by (simp add: eq cgo_objects_of_def)
  show "debug_cgo_objects_of (render_residue h scale debug_axes fr acc) = debug_cgo_objects_of acc"
    unfolding fr acc by (simp add: eq debug_cgo_objects_of_def)
  show "Error_generating (fst fr) (fst (snd fr)) e
           \<in> set (printed_of (render_residue h scale debug_axes fr acc))"
    unfolding fr acc by (simp add: eq printed_of_def)
qed

lemma render_residue_ok:
  assumes "known fr" and "raises h fr = None"
  shows "cgo_objects_of (render_residue h scale debug_axes fr acc) =
           cgo_objects_of acc @ generated scale fr"
    and "debug_cgo_objects_of (render_residue h scale debug_axes fr acc) =
           debug_cgo_objects_of acc @ generated_axes scale debug_axes fr"
proof -
  obtain rn x y z x_axis y_axis z_axis where fr: "fr = (rn, (x, y, z), x_axis, y_axis, z_axis)"
    by (metis prod_cases3)
  obtain c d n out where acc: "acc = (c, d, n, out)" by (metis prod_cases4)
  from assms(1) obtain color shape where sh: "map_of snfg_shapes rn = Some (color, shape)"
    by (cases "map_of snfg_shapes rn") (auto simp: known_def fr)
  then have eq: "render_residue h scale debug_axes fr acc =
         (c @ snd (shape_cgo scale rn color shape x y z x_axis y_axis z_axis),
          d @ (if debug_axes then debug_axes_cgo scale (x, y, z) x_axis y_axis z_axis else []),
          n + 1,
          out @ fst (shape_cgo scale rn color shape x y z x_axis y_axis z_axis))"
    unfolding fr acc using assms(2) [unfolded fr] by (rule render_residue_ok_eq)
  note eq = eq [unfolded fr acc]
  show "cgo_objects_of (render_residue h scale debug_axes fr acc) =
           cgo_objects_of acc @ generated scale fr"
    unfolding fr acc by (simp add: eq cgo_objects_of_def generated_def sh)
  show "debug_cgo_objects_of (render_residue h scale debug_axes fr acc) =
           debug_cgo_objects_of acc @ generated_axes scale debug_axes fr"
    unfolding fr acc by (simp add: eq debug_cgo_objects_of_def generated_axes_def sh)
qed

lemma render_residue_printed:
  "set (printed_of acc) \<subseteq> set (printed_of (render_residue h scale debug_axes fr acc))"
proof -
  obtain rn x y z x_axis y_axis z_axis where fr: "fr = (rn, (x, y, z), x_axis, y_axis, z_axis)"
    by (metis prod_cases3)
  obtain c d n out where acc: "acc = (c, d, n, out)" by (metis prod_cases4)
  show ?thesis
  proof (cases "map_of snfg_shapes rn")
    case None
    then show ?thesis
      unfolding fr acc by (auto simp: render_residue_unknown_eq printed_of_def)
  next
    case (Some cs)
    then obtain color shape where sh: "map_of snfg_shapes rn = Some (color, shape)"
      by (cases cs) simp
    show ?thesis
    proof (cases "raises h (rn, (x, y, z), x_axis, y_axis, z_axis)")
      case None
      then show ?thesis
        unfolding fr acc by (auto simp: render_residue_ok_eq [OF sh] printed_of_def)
    next
      case (Some e)
      then show ?thesis
        unfolding fr acc by (auto simp: render_residue_raises_eq [OF sh] printed_of_def)
    qed
  qed
qed

lemma generated_unknown: "\<not> known fr \<Longrightarrow> generated scale fr = []"
  by (auto simp: known_def generated_def split: prod.splits option.splits)

lemma generated_axes_unknown: "\<not> known fr \<Longrightarrow> generated_axes scale debug_axes fr = []"
  by (auto simp: known_def generated_axes_def split: prod.splits option.splits)

text \<open>The loop: what it accumulates is what the residues that do not raise contribute.\<close>

lemma render_loop_cgo_objects:
  "cgo_objects_of (render_loop h scale debug_axes frames acc) =
     cgo_objects_of acc @ concat (map (generated scale) [fr \<leftarrow> frames. raises h fr = None])"
proof (induction frames arbitrary: acc)
  case Nil
  then show ?case by simp
next
  case (Cons fr frames)
  show ?case
  proof (cases "known fr")
    case False
    then show ?thesis
      by (simp add: Cons.IH render_residue_unknown generated_unknown)
  next
    case True
    then show ?thesis
      by (cases "raises h fr") (simp_all add: Cons.IH render_residue_raises render_residue_ok)
  qed
qed

lemma render_loop_debug_cgo_objects:
  "debug_cgo_objects_of (render_loop h scale debug_axes frames acc) =
     debug_cgo_objects_of acc
     @ concat (map (generated_axes scale debug_axes) [fr \<leftarrow> frames. raises h fr = None])"
proof (induction frames arbitrary: acc)
  case Nil
  then show ?case by simp
next
  case (Cons fr frames)
  show ?case
  proof (cases "known fr")
    case False
    then show ?thesis
      by (simp add: Cons.IH render_residue_unknown generated_axes_unknown)
  next
    case True
    then show ?thesis
      by (cases "raises h fr") (simp_all add: Cons.IH render_residue_raises render_residue_ok)
  qed
qed

lemma render_loop_printed:
  "set (printed_of acc) \<subseteq> set (printed_of (render_loop h scale debug_axes frames acc))"
proof (induction frames arbitrary: acc)
  case Nil
  then show ?case by simp
next
  case (Cons fr frames)
  have "set (printed_of acc) \<subseteq> set (printed_of (render_residue h scale debug_axes fr acc))"
    by (rule render_residue_printed)
  also have "\<dots> \<subseteq> set (printed_of (render_loop h scale debug_axes frames
                              (render_residue h scale debug_axes fr acc)))"
    by (rule Cons.IH)
  finally show ?case by simp
qed

lemma render_loop_error_printed:
  assumes "fr \<in> set frames" and "known fr" and "raises h fr = Some e"
  shows "Error_generating (fst fr) (fst (snd fr)) e
           \<in> set (printed_of (render_loop h scale debug_axes frames acc))"
  using assms(1)
proof (induction frames arbitrary: acc)
  case Nil
  then show ?case by simp
next
  case (Cons fr' frames)
  show ?case
  proof (cases "fr = fr'")
    case True
    have "Error_generating (fst fr) (fst (snd fr)) e
            \<in> set (printed_of (render_residue h scale debug_axes fr acc))"
      using assms(2,3) by (rule render_residue_raises)
    then show ?thesis
      using render_loop_printed [of "render_residue h scale debug_axes fr acc" h scale debug_axes frames]
        True by auto
  next
    case False
    with Cons.prems have "fr \<in> set frames" by simp
    then show ?thesis by (simp add: Cons.IH)
  qed
qed

lemma debug_needs_cgo_objects:
  assumes "concat (map (generated_axes scale debug_axes) frames) \<noteq> []"
  shows "concat (map (generated scale) frames) \<noteq> []"
proof -
  from assms obtain fr where "fr \<in> set frames" and "generated_axes scale debug_axes fr \<noteq> []"
    by auto
  then have "fr \<in> set frames" and "generated scale fr \<noteq> []"
    using generated_axes_unknown generated_nonempty by blast+
  then show ?thesis by auto
qed

text \<open>The calls \<open>render_snfg\<close> makes, from what the loop has accumulated.\<close>

lemma accumulated_empty:
  assumes "get_residue_orientation h (full_selection_of selection) = []"
  shows "cgo_objects_of (accumulated h selection scale debug_axes) = []"
    and "debug_cgo_objects_of (accumulated h selection scale debug_axes) = []"
  using assms
  by (simp_all add: accumulated_def Let_def cgo_objects_of_def debug_cgo_objects_of_def)

lemma render_snfg_cmds:
  "fst (render_snfg h selection transparency scale debug_axes) =
     (let cgo_objects = cgo_objects_of (accumulated h selection scale debug_axes);
          debug_cgo_objects = debug_cgo_objects_of (accumulated h selection scale debug_axes);
          cgo_name = cgo_name_of selection;
          debug_cgo_name = cgo_name @ ''_axes''
      in if cgo_objects = [] then
           (if debug_axes \<and> debug_cgo_objects \<noteq> []
            then [Load_cgo debug_cgo_objects debug_cgo_name] else [])
         else
           [Delete cgo_name, Load_cgo cgo_objects cgo_name]
           @ (if debug_axes \<and> debug_cgo_objects \<noteq> []
              then [Delete debug_cgo_name, Load_cgo debug_cgo_objects debug_cgo_name] else []))"
proof (cases "get_residue_orientation h (full_selection_of selection) = []")
  case True
  then show ?thesis
    by (simp add: render_snfg_def Let_def accumulated_empty)
next
  case False
  obtain c d n out where acc: "accumulated h selection scale debug_axes = (c, d, n, out)"
    by (metis prod_cases4)
  show ?thesis
    using False
    by (simp add: render_snfg_def Let_def acc cgo_objects_of_def debug_cgo_objects_of_def
        cgo_name_of_def)
qed

lemma render_snfg_printed:
  assumes "get_residue_orientation h (full_selection_of selection) \<noteq> []"
  shows "set (printed_of (accumulated h selection scale debug_axes))
           \<subseteq> set (snd (render_snfg h selection transparency scale debug_axes))"
proof -
  obtain c d n out where acc: "accumulated h selection scale debug_axes = (c, d, n, out)"
    by (metis prod_cases4)
  show ?thesis
    using assms by (auto simp: render_snfg_def Let_def acc printed_of_def)
qed

lemma accumulated_cgo_objects:
  "cgo_objects_of (accumulated h selection scale debug_axes) =
     concat (map (generated scale)
       [fr \<leftarrow> get_residue_orientation h (full_selection_of selection). raises h fr = None])"
  unfolding accumulated_def Let_def render_loop_cgo_objects by (simp add: cgo_objects_of_def)

lemma accumulated_debug_cgo_objects:
  "debug_cgo_objects_of (accumulated h selection scale debug_axes) =
     concat (map (generated_axes scale debug_axes)
       [fr \<leftarrow> get_residue_orientation h (full_selection_of selection). raises h fr = None])"
  unfolding accumulated_def Let_def render_loop_debug_cgo_objects
  by (simp add: debug_cgo_objects_of_def)

lemma accumulated_error_printed:
  assumes "fr \<in> set (get_residue_orientation h (full_selection_of selection))"
    and "known fr" and "raises h fr = Some e"
  shows "Error_generating (fst fr) (fst (snd fr)) e
           \<in> set (printed_of (accumulated h selection scale debug_axes))"
  unfolding accumulated_def Let_def using assms by (rule render_loop_error_printed)

lemma accumulated_debug_needs_cgo_objects:
  "cgo_objects_of (accumulated h selection scale debug_axes) = [] \<Longrightarrow>
   debug_cgo_objects_of (accumulated h selection scale debug_axes) = []"
  unfolding accumulated_cgo_objects accumulated_debug_cgo_objects
  using debug_needs_cgo_objects by blast

lemma cgo_name_axes: "cgo_name_of selection @ ''_axes'' \<noteq> cgo_name_of selection"
  by simp

text \<open>
  C4. Whatever the selection, the loop ends with the primitives of exactly the residues
  whose generation does not raise, in their order, and the same for the debug axes: a
  residue whose generation raises adds nothing and does not stop the loop. For each such
  residue of a known name, \<open>render_snfg\<close> prints the error line with the residue name,
  its center and the exception. When any primitives were accumulated, they are loaded
  under the derived name.
\<close>

theorem failing_residue_is_skipped:
  assumes "frames = get_residue_orientation h (full_selection_of selection)"
    and "acc = accumulated h selection scale debug_axes"
  shows "cgo_objects_of acc =
           concat (map (generated scale) [fr \<leftarrow> frames. raises h fr = None]) \<and>
         debug_cgo_objects_of acc =
           concat (map (generated_axes scale debug_axes) [fr \<leftarrow> frames. raises h fr = None]) \<and>
         (\<forall>fr \<in> set frames. \<forall>e. known fr \<and> raises h fr = Some e \<longrightarrow>
            Error_generating (fst fr) (fst (snd fr)) e
              \<in> set (snd (render_snfg h selection transparency scale debug_axes))) \<and>
         (cgo_objects_of acc \<noteq> [] \<longrightarrow>
            Load_cgo (cgo_objects_of acc) (cgo_name_of selection)
              \<in> set (fst (render_snfg h selection transparency scale debug_axes)))"
proof (intro conjI ballI allI impI)
  show "cgo_objects_of acc = concat (map (generated scale) [fr \<leftarrow> frames. raises h fr = None])"
    unfolding assms by (rule accumulated_cgo_objects)
  show "debug_cgo_objects_of acc =
          concat (map (generated_axes scale debug_axes) [fr \<leftarrow> frames. raises h fr = None])"
    unfolding assms by (rule accumulated_debug_cgo_objects)
next
  fix fr e
  assume fr: "fr \<in> set frames" and "known fr \<and> raises h fr = Some e"
  then have "Error_generating (fst fr) (fst (snd fr)) e
               \<in> set (printed_of (accumulated h selection scale debug_axes))"
    unfolding assms by (simp add: accumulated_error_printed)
  moreover have "get_residue_orientation h (full_selection_of selection) \<noteq> []"
    using fr unfolding assms by auto
  ultimately show "Error_generating (fst fr) (fst (snd fr)) e
      \<in> set (snd (render_snfg h selection transparency scale debug_axes))"
    using render_snfg_printed by blast
next
  assume "cgo_objects_of acc \<noteq> []"
  then show "Load_cgo (cgo_objects_of acc) (cgo_name_of selection)
               \<in> set (fst (render_snfg h selection transparency scale debug_axes))"
    unfolding assms by (simp add: render_snfg_cmds Let_def)
qed

text \<open>
  C10. When the loop ends with an empty \<open>cgo_objects\<close> (or is not run, the selection
  giving no frame), \<open>render_snfg\<close> calls \<open>cmd.delete\<close> on no name and
  \<open>cmd.load_cgo\<close> not on the primary name, so the object under that name is what it
  was; the only call it can make is to load the debug axes, when they were requested and
  are not empty, under the axes name, with no delete before.
\<close>

theorem empty_render_keeps_primary_object:
  assumes "cgo_objects_of (accumulated h selection scale debug_axes) = []"
    and "cmds = fst (render_snfg h selection transparency scale debug_axes)"
  shows "cmds =
           (if debug_axes \<and> debug_cgo_objects_of (accumulated h selection scale debug_axes) \<noteq> []
            then [Load_cgo (debug_cgo_objects_of (accumulated h selection scale debug_axes))
                    (cgo_name_of selection @ ''_axes'')]
            else []) \<and>
         (\<forall>n. Delete n \<notin> set cmds) \<and>
         (\<forall>prims. Load_cgo prims (cgo_name_of selection) \<notin> set cmds) \<and>
         exec_cmds appends cmds objs (cgo_name_of selection) = objs (cgo_name_of selection)"
  using assms by (simp add: render_snfg_cmds Let_def)

text \<open>
  C5. \<open>render_snfg\<close> is a function of the host's answers and of its arguments; it
  reads nothing of the objects PyMOL holds. A second call on an unchanged selection
  therefore makes the same calls with the same primitive lists, and it leaves PyMOL's
  objects exactly as the first call left them, whether \<open>cmd.load_cgo\<close> on an existing
  name adds a state or replaces: when primitives were generated, the object under the
  derived name holds that one primitive list, after the first call and after the second.
\<close>

theorem render_twice_same_objects:
  assumes "cmds = fst (render_snfg h selection transparency scale debug_axes)"
    and "once = exec_cmds appends cmds objs"
    and "twice = exec_cmds appends cmds once"
    and "cgo_objects = cgo_objects_of (accumulated h selection scale debug_axes)"
  shows "twice = once \<and>
         (cgo_objects \<noteq> [] \<longrightarrow>
            once (cgo_name_of selection) = [cgo_objects] \<and>
            twice (cgo_name_of selection) = [cgo_objects])"
proof (cases "cgo_objects = []")
  case True
  then have "cmds = []"
    using accumulated_debug_needs_cgo_objects [of h selection scale debug_axes]
    unfolding assms by (simp add: render_snfg_cmds Let_def)
  with True show ?thesis by (simp add: assms(2,3))
next
  case False
  then show ?thesis
    unfolding assms by (auto simp: render_snfg_cmds Let_def fun_upd_twist)
qed

lemma MAN_shape: "map_of snfg_shapes ''MAN'' = Some (SNFG_GREEN, ''sphere'')"
  by (simp add: snfg_shapes_def)

lemma known_MAN: "known (''MAN'', center, x_axis, y_axis, z_axis)"
  by (simp add: known_def MAN_shape)

lemma generated_MAN:
  "generated scale (''MAN'', (x, y, z), x_axis, y_axis, z_axis) =
     [COLOR, Num 0, Num (166 / 255), Num (81 / 255), SPHERE, Num x, Num y, Num z,
      Num (1.8 * scale * 1.3)]"
  by (simp add: generated_def MAN_shape shape_cgo_def cgo_sphere_def SNFG_GREEN_def)

lemma cgo_name_all: "cgo_name_of ''all'' = ''snfg_all''"
  by (simp add: cgo_name_of_def safe_name_def isalnum_def)

lemma single_atom_frame:
  "residue_orientation h k [(''C1'', xyz)] =
     (snd (snd k), xyz, (1, 0, 0), (0, 1, 0), (0, 0, 1))"
proof -
  have "length (coords_of required_atoms [(''C1'', xyz)]) < 3"
    by (simp add: coords_of_def required_atoms_def List.map_filter_def)
  then have "residue_orientation h k [(''C1'', xyz)] =
               (snd (snd k), mean (map snd [(''C1'', xyz)]), default_x, default_y, default_z)"
    by (rule residue_orientation_few) simp
  moreover have "mean [xyz] = xyz" by (cases xyz) (simp add: mean_def)
  ultimately show ?thesis by (simp add: default_x_def default_y_def default_z_def)
qed

lemma two_residues_frames:
  "get_residue_orientation (failing_host two_residues center) selection =
     [(''MAN'', (1, 2, 3), (1, 0, 0), (0, 1, 0), (0, 0, 1)),
      (''MAN'', (4, 5, 6), (1, 0, 0), (0, 1, 0), (0, 0, 1))]"
proof -
  have "collect_atoms two_residues [] =
          [((''A'', ''1'', ''MAN''), [(''C1'', (1, 2, 3))]),
           ((''A'', ''2'', ''MAN''), [(''C1'', (4, 5, 6))])]"
    by (simp add: two_residues_def required_atoms_def Let_def)
  then show ?thesis
    by (simp add: get_residue_orientation_def orientations_def failing_host_def single_atom_frame)
qed

lemma one_residue_frames:
  assumes "get_model h selection = one_residue"
  shows "get_residue_orientation h selection =
           [(''MAN'', (1, 2, 3), (1, 0, 0), (0, 1, 0), (0, 0, 1))]"
proof -
  have "collect_atoms one_residue [] = [((''A'', ''1'', ''MAN''), [(''C1'', (1, 2, 3))])]"
    by (simp add: one_residue_def required_atoms_def Let_def)
  then show ?thesis
    by (simp add: get_residue_orientation_def orientations_def assms single_atom_frame)
qed

lemma example_host_raises: "raises (example_host model rank vh_last) fr = None"
  by (simp add: example_host_def)

lemma failing_host_raises:
  "raises (failing_host model center) fr =
     (if fst (snd fr) = center then Some (Exn ''FloatingPointError'') else None)"
  by (simp add: failing_host_def)

theorem failing_residue_is_skipped_witness:
  "(''MAN'', (1, 2, 3), (1, 0, 0), (0, 1, 0), (0, 0, 1))
     \<in> set (get_residue_orientation (failing_host two_residues (1, 2, 3)) (full_selection_of ''all'')) \<and>
   known (''MAN'', (1, 2, 3), (1, 0, 0), (0, 1, 0), (0, 0, 1)) \<and>
   raises (failing_host two_residues (1, 2, 3)) (''MAN'', (1, 2, 3), (1, 0, 0), (0, 1, 0), (0, 0, 1))
     = Some (Exn ''FloatingPointError'') \<and>
   Error_generating ''MAN'' (1, 2, 3) (Exn ''FloatingPointError'')
     \<in> set (snd (render_snfg (failing_host two_residues (1, 2, 3)) ''all'' 0.3 0.5 False)) \<and>
   cgo_objects_of (accumulated (failing_host two_residues (1, 2, 3)) ''all'' 0.5 False) =
     [COLOR, Num 0, Num (166 / 255), Num (81 / 255), SPHERE, Num 4, Num 5, Num 6, Num 1.17] \<and>
   Load_cgo [COLOR, Num 0, Num (166 / 255), Num (81 / 255), SPHERE, Num 4, Num 5, Num 6, Num 1.17]
       ''snfg_all''
     \<in> set (fst (render_snfg (failing_host two_residues (1, 2, 3)) ''all'' 0.3 0.5 False))"
proof -
  let ?h = "failing_host two_residues (1, 2, 3)"
  let ?fr = "(''MAN'', (1, 2, 3), (1, 0, 0), (0, 1, 0), (0, 0, 1)) :: frame"
  let ?prims = "[COLOR, Num 0, Num (166 / 255), Num (81 / 255), SPHERE, Num 4, Num 5, Num 6,
                 Num 1.17]"
  note skipped = failing_residue_is_skipped [OF refl refl, where h = ?h and selection = "''all''"
      and scale = "0.5" and debug_axes = False and transparency = "0.3"]
  have mem: "?fr \<in> set (get_residue_orientation ?h (full_selection_of ''all''))"
    by (simp add: two_residues_frames)
  have kn: "known ?fr" by (rule known_MAN)
  have ra: "raises ?h ?fr = Some (Exn ''FloatingPointError'')"
    by (simp add: failing_host_raises)
  from skipped mem kn ra
  have err: "Error_generating (fst ?fr) (fst (snd ?fr)) (Exn ''FloatingPointError'')
               \<in> set (snd (render_snfg ?h ''all'' 0.3 0.5 False))"
    by blast
  from skipped have "cgo_objects_of (accumulated ?h ''all'' 0.5 False) =
      concat (map (generated 0.5)
        [fr \<leftarrow> get_residue_orientation ?h (full_selection_of ''all''). raises ?h fr = None])"
    by blast
  then have objs: "cgo_objects_of (accumulated ?h ''all'' 0.5 False) = ?prims"
    by (simp add: two_residues_frames failing_host_raises generated_MAN)
  have ne: "cgo_objects_of (accumulated ?h ''all'' 0.5 False) \<noteq> []"
    unfolding objs by simp
  from skipped ne
  have "Load_cgo (cgo_objects_of (accumulated ?h ''all'' 0.5 False)) (cgo_name_of ''all'')
          \<in> set (fst (render_snfg ?h ''all'' 0.3 0.5 False))"
    by blast
  then have load: "Load_cgo ?prims ''snfg_all'' \<in> set (fst (render_snfg ?h ''all'' 0.3 0.5 False))"
    unfolding objs cgo_name_all .
  from mem kn ra err objs load show ?thesis by simp
qed

theorem empty_render_keeps_primary_object_witness:
  "cgo_objects_of (accumulated (failing_host one_residue (1, 2, 3)) ''all'' 0.5 True) = [] \<and>
   fst (render_snfg (failing_host one_residue (1, 2, 3)) ''all'' 0.3 0.5 True) = [] \<and>
   exec_cmds True (fst (render_snfg (failing_host one_residue (1, 2, 3)) ''all'' 0.3 0.5 True))
     previous_objects ''snfg_all'' =
     [[COLOR, Num 1, Num 0, Num 0, SPHERE, Num 0, Num 0, Num 0, Num 1]]"
proof -
  let ?h = "failing_host one_residue (1, 2, 3)"
  have fr: "get_residue_orientation ?h (full_selection_of ''all'') =
              [(''MAN'', (1, 2, 3), (1, 0, 0), (0, 1, 0), (0, 0, 1))]"
    by (rule one_residue_frames) (simp add: failing_host_def)
  have empty: "cgo_objects_of (accumulated ?h ''all'' 0.5 True) = []"
    by (simp add: accumulated_cgo_objects fr failing_host_raises)
  have no_axes: "debug_cgo_objects_of (accumulated ?h ''all'' 0.5 True) = []"
    by (simp add: accumulated_debug_cgo_objects fr failing_host_raises)
  note kept = empty_render_keeps_primary_object [OF empty refl, where transparency = "0.3"
      and appends = True and objs = previous_objects]
  from kept have cmds: "fst (render_snfg ?h ''all'' 0.3 0.5 True) = []"
    unfolding no_axes by simp
  from kept have "exec_cmds True (fst (render_snfg ?h ''all'' 0.3 0.5 True)) previous_objects
                    (cgo_name_of ''all'') = previous_objects (cgo_name_of ''all'')"
    by blast
  then have "exec_cmds True (fst (render_snfg ?h ''all'' 0.3 0.5 True)) previous_objects
               ''snfg_all'' = [[COLOR, Num 1, Num 0, Num 0, SPHERE, Num 0, Num 0, Num 0, Num 1]]"
    unfolding cgo_name_all by (simp add: previous_objects_def)
  with empty cmds show ?thesis by blast
qed

theorem render_twice_same_objects_witness:
  "cgo_objects_of (accumulated (example_host one_residue 0 (0, 0, 1)) ''all'' 0.5 False) =
     [COLOR, Num 0, Num (166 / 255), Num (81 / 255), SPHERE, Num 1, Num 2, Num 3, Num 1.17] \<and>
   exec_cmds True (fst (render_snfg (example_host one_residue 0 (0, 0, 1)) ''all'' 0.3 0.5 False))
     previous_objects ''snfg_all'' =
     [[COLOR, Num 0, Num (166 / 255), Num (81 / 255), SPHERE, Num 1, Num 2, Num 3, Num 1.17]] \<and>
   exec_cmds True (fst (render_snfg (example_host one_residue 0 (0, 0, 1)) ''all'' 0.3 0.5 False))
     (exec_cmds True (fst (render_snfg (example_host one_residue 0 (0, 0, 1)) ''all'' 0.3 0.5 False))
        previous_objects) =
   exec_cmds True (fst (render_snfg (example_host one_residue 0 (0, 0, 1)) ''all'' 0.3 0.5 False))
     previous_objects"
proof -
  let ?h = "example_host one_residue 0 (0, 0, 1)"
  let ?prims = "[COLOR, Num 0, Num (166 / 255), Num (81 / 255), SPHERE, Num 1, Num 2, Num 3,
                 Num 1.17]"
  have fr: "get_residue_orientation ?h (full_selection_of ''all'') =
              [(''MAN'', (1, 2, 3), (1, 0, 0), (0, 1, 0), (0, 0, 1))]"
    by (rule one_residue_frames) (simp add: example_host_def)
  have objs: "cgo_objects_of (accumulated ?h ''all'' 0.5 False) = ?prims"
    by (simp add: accumulated_cgo_objects fr example_host_raises generated_MAN)
  have ne: "cgo_objects_of (accumulated ?h ''all'' 0.5 False) \<noteq> []"
    unfolding objs by simp
  note twice = render_twice_same_objects [OF refl refl refl refl, where h = ?h
      and selection = "''all''" and transparency = "0.3" and scale = "0.5" and debug_axes = False
      and appends = True and objs = previous_objects]
  from twice ne
  have "exec_cmds True (fst (render_snfg ?h ''all'' 0.3 0.5 False)) previous_objects
          (cgo_name_of ''all'') = [cgo_objects_of (accumulated ?h ''all'' 0.5 False)]"
    by blast
  then have once: "exec_cmds True (fst (render_snfg ?h ''all'' 0.3 0.5 False)) previous_objects
                     ''snfg_all'' = [?prims]"
    unfolding objs cgo_name_all .
  from twice have "exec_cmds True (fst (render_snfg ?h ''all'' 0.3 0.5 False))
     (exec_cmds True (fst (render_snfg ?h ''all'' 0.3 0.5 False)) previous_objects) =
     exec_cmds True (fst (render_snfg ?h ''all'' 0.3 0.5 False)) previous_objects"
    by blast
  with objs once show ?thesis by blast
qed

end
